theory Spec2Isabelle
  imports Complex_Main
begin

section \<open>Numbers and geometry\<close>

text \<open>
  Every quantity of the program is a JavaScript \<^verbatim>\<open>number\<close>. The embedding takes them
  as \<^typ>\<open>real\<close>: the arithmetic of the source is kept operation by operation, the
  rounding of IEEE doubles, \<^verbatim>\<open>NaN\<close> and the infinities are not represented. A division
  by zero is therefore outside the model (HOL gives 0 where JavaScript gives an infinity
  or \<^verbatim>\<open>NaN\<close>): a theorem that states the formula the code computes holds as a formula
  there, and the lemmas that bound the values computed from a zoom factor assume the
  zoom factor to be non-zero.
\<close>

text \<open>\<^verbatim>\<open>CropBox\<close> of \<^verbatim>\<open>types.ts\<close>: logical page units, origin at the top left.\<close>

record CropBox =
  box_x :: real
  box_y :: real
  box_width :: real
  box_height :: real

text \<open>A rectangle in PDF point space (origin at the bottom left), as the four arguments
  of \<^verbatim>\<open>setCropBox\<close> and \<^verbatim>\<open>setMediaBox\<close>.\<close>

record rect =
  rx :: real
  ry :: real
  rw :: real
  rh :: real

section \<open>The PDF document, as far as the service touches it\<close>

text \<open>
  A page carries its media box, an optional crop box and its content: nothing, as on
  a page the library creates itself, or a content stream (an opaque identifier).
  \<^verbatim>\<open>getSize\<close> reads width and height of the media box. A document is its list of
  pages and the way the object came to be: \<^verbatim>\<open>PDFDocument.load\<close> of the file or
  \<^verbatim>\<open>PDFDocument.create\<close>.
\<close>

datatype page_content = Blank | Stream nat

record pdf_page =
  mediaBox :: rect
  cropBox :: "rect option"
  content :: page_content

datatype doc_origin = Loaded | Created

record pdf_doc =
  pages :: "pdf_page list"
  origin :: doc_origin

datatype error = TypeError | IndexOutOfRange

datatype targetPages = All | Current

definition getSize :: "pdf_page \<Rightarrow> real \<times> real" where
  "getSize page = (rw (mediaBox page), rh (mediaBox page))"

definition setCropBox :: "real \<Rightarrow> real \<Rightarrow> real \<Rightarrow> real \<Rightarrow> pdf_page \<Rightarrow> pdf_page" where
  "setCropBox x y w h page = page\<lparr>cropBox := Some \<lparr>rx = x, ry = y, rw = w, rh = h\<rparr>\<rparr>"

definition setMediaBox :: "real \<Rightarrow> real \<Rightarrow> real \<Rightarrow> real \<Rightarrow> pdf_page \<Rightarrow> pdf_page" where
  "setMediaBox x y w h page = page\<lparr>mediaBox := \<lparr>rx = x, ry = y, rw = w, rh = h\<rparr>\<rparr>"

definition PDFDocument_create :: pdf_doc where
  "PDFDocument_create = \<lparr>pages = [], origin = Created\<rparr>"

definition addPage :: "pdf_page \<Rightarrow> pdf_doc \<Rightarrow> pdf_doc" where
  "addPage p d = d\<lparr>pages := pages d @ [p]\<rparr>"

text \<open>
  \<^verbatim>\<open>save()\<close>, called with no options as everywhere in the service: pdf-lib's
  \<^verbatim>\<open>addDefaultPage\<close> option is then on, and a document that has no page gets one
  through \<^verbatim>\<open>addPage()\<close> before it is written out, a page without content of the
  default size A4 (595.28 by 841.89 pt) and without a crop box. A document that has
  pages is written out as it is.
\<close>

definition defaultPage :: pdf_page where
  "defaultPage =
     \<lparr>mediaBox = \<lparr>rx = 0, ry = 0, rw = 595.28, rh = 841.89\<rparr>,
      cropBox = None, content = Blank\<rparr>"

definition save :: "pdf_doc \<Rightarrow> pdf_doc" where
  "save d = (if length (pages d) = 0 then addPage defaultPage d else d)"

text \<open>\<^verbatim>\<open>copyPages\<close> returns copies of the pages at the given indices of the source
  document, in order, and throws when an index names no page.\<close>

definition copyPages :: "pdf_doc \<Rightarrow> nat list \<Rightarrow> error + pdf_page list" where
  "copyPages srcDoc indices =
     (if \<forall>i \<in> set indices. i < length (pages srcDoc)
      then Inr (map (\<lambda>i. pages srcDoc ! i) indices)
      else Inl IndexOutOfRange)"

definition bindE :: "error + 'a \<Rightarrow> ('a \<Rightarrow> error + 'b) \<Rightarrow> error + 'b" where
  "bindE m f = (case m of Inl e \<Rightarrow> Inl e | Inr v \<Rightarrow> f v)"

section \<open>cropPDF\<close>

text \<open>The rectangle computed in the loop body of \<^verbatim>\<open>cropPDF\<close> for one page.\<close>

definition mappedRect :: "CropBox \<Rightarrow> real \<Rightarrow> real \<Rightarrow> pdf_page \<Rightarrow> rect" where
  "mappedRect cb viewWidth viewHeight page =
     (let (width, height) = getSize page;
          scaleX = width / viewWidth;
          scaleY = height / viewHeight;
          pdfX = box_x cb * scaleX;
          pdfY = height - (box_y cb * scaleY) - (box_height cb * scaleY);
          pdfW = box_width cb * scaleX;
          pdfH = box_height cb * scaleY
      in \<lparr>rx = pdfX, ry = pdfY, rw = pdfW, rh = pdfH\<rparr>)"

definition cropPage :: "CropBox \<Rightarrow> real \<Rightarrow> real \<Rightarrow> pdf_page \<Rightarrow> pdf_page" where
  "cropPage cb viewWidth viewHeight page =
     (let r = mappedRect cb viewWidth viewHeight page
      in setMediaBox (rx r) (ry r) (rw r) (rh r)
           (setCropBox (rx r) (ry r) (rw r) (rh r) page))"

text \<open>The loop over \<^verbatim>\<open>applyIndices\<close>. Each page object is mutated in place; an index
  with no page gives \<^verbatim>\<open>undefined\<close>, and \<^verbatim>\<open>page.getSize()\<close> on it throws a TypeError.
  Page indices are natural numbers, as the caller's \<^verbatim>\<open>currentPageIdx\<close> is.\<close>

fun cropLoop :: "CropBox \<Rightarrow> real \<Rightarrow> real \<Rightarrow> nat list \<Rightarrow> pdf_page list \<Rightarrow> error + pdf_page list" where
  "cropLoop cb viewWidth viewHeight [] ps = Inr ps"
| "cropLoop cb viewWidth viewHeight (idx # rest) ps =
     (if idx < length ps
      then cropLoop cb viewWidth viewHeight rest
             (ps[idx := cropPage cb viewWidth viewHeight (ps ! idx)])
      else Inl TypeError)"

definition applyIndices :: "targetPages \<Rightarrow> nat \<Rightarrow> pdf_page list \<Rightarrow> nat list" where
  "applyIndices tp currentPageIndex ps =
     (case tp of All \<Rightarrow> [0..<length ps] | Current \<Rightarrow> [currentPageIndex])"

definition cropPDF ::
  "pdf_doc \<Rightarrow> CropBox \<Rightarrow> targetPages \<Rightarrow> nat \<Rightarrow> real \<Rightarrow> real \<Rightarrow> error + pdf_doc" where
  "cropPDF file cb tp currentPageIndex viewWidth viewHeight =
     (let pdfDoc = file;
          ps = pages pdfDoc
      in bindE (cropLoop cb viewWidth viewHeight (applyIndices tp currentPageIndex ps) ps)
           (\<lambda>ps'. Inr (save (pdfDoc\<lparr>pages := ps'\<rparr>))))"

text \<open>The mapping in the words of the specification (section 4.1, \<^verbatim>\<open>logicalToPdf\<close>).\<close>

definition logicalToPdf :: "CropBox \<Rightarrow> real \<Rightarrow> real \<Rightarrow> real \<Rightarrow> real \<Rightarrow> rect" where
  "logicalToPdf b pageWidthPt pageHeightPt viewportWidthPx viewportHeightPx =
     \<lparr>rx = box_x b * (pageWidthPt / viewportWidthPx),
      ry = pageHeightPt - (box_y b * (pageHeightPt / viewportHeightPx))
             - (box_height b * (pageHeightPt / viewportHeightPx)),
      rw = box_width b * (pageWidthPt / viewportWidthPx),
      rh = box_height b * (pageHeightPt / viewportHeightPx)\<rparr>"

section \<open>splitEcomLabel and splitEcomLabelFixed\<close>

definition splitEcomLabel :: "pdf_doc \<Rightarrow> real \<Rightarrow> error + pdf_doc" where
  "splitEcomLabel file anchorYPercent =
     (let pdfDoc = file;
          newPdfDoc = PDFDocument_create;
          originalPages = pages pdfDoc
      in if length originalPages = 0 then Inr (save pdfDoc)
         else
           let page = originalPages ! 0;
               (width, height) = getSize page;
               splitY = height * (1 - anchorYPercent / 100)
           in bindE (copyPages pdfDoc [0]) (\<lambda>c1.
                let labelPage = setMediaBox 0 splitY width (height - splitY)
                                  (setCropBox 0 splitY width (height - splitY) (hd c1));
                    newPdfDoc = addPage labelPage newPdfDoc
                in bindE (copyPages pdfDoc [0]) (\<lambda>c2.
                     let invoicePage = setMediaBox 0 0 width splitY
                                         (setCropBox 0 0 width splitY (hd c2));
                         newPdfDoc = addPage invoicePage newPdfDoc
                     in if length originalPages > 1
                        then
                          let remainingIndices = tl [0..<length originalPages]
                          in bindE (copyPages pdfDoc remainingIndices) (\<lambda>otherPages.
                               Inr (save (foldl (\<lambda>d p. addPage p d) newPdfDoc otherPages)))
                        else Inr (save newPdfDoc))))"

text \<open>The \<^verbatim>\<open>config\<close> argument of \<^verbatim>\<open>splitEcomLabelFixed\<close>.\<close>

record dims =
  dim_width :: real
  dim_height :: real

record fixedConfig =
  label :: dims
  invoice :: dims
  cfg_viewWidth :: real

definition splitEcomLabelFixed :: "pdf_doc \<Rightarrow> fixedConfig \<Rightarrow> error + pdf_doc" where
  "splitEcomLabelFixed file config =
     (let pdfDoc = file;
          newPdfDoc = PDFDocument_create;
          originalPages = pages pdfDoc
      in if length originalPages = 0 then Inr (save pdfDoc)
         else
           let page = originalPages ! 0;
               (width, height) = getSize page;
               scale = width / cfg_viewWidth config;
               labelH = dim_height (label config) * scale;
               invoiceH = dim_height (invoice config) * scale
           in bindE (copyPages pdfDoc [0]) (\<lambda>c1.
                let labelPage = setMediaBox 0 (height - labelH) width labelH
                                  (setCropBox 0 (height - labelH) width labelH (hd c1));
                    newPdfDoc = addPage labelPage newPdfDoc
                in bindE (copyPages pdfDoc [0]) (\<lambda>c2.
                     let invoiceBottom = max 0 (height - labelH - invoiceH);
                         invoicePage = setMediaBox 0 invoiceBottom width invoiceH
                                         (setCropBox 0 invoiceBottom width invoiceH (hd c2));
                         newPdfDoc = addPage invoicePage newPdfDoc
                     in if length originalPages > 1
                        then
                          let remainingIndices = tl [0..<length originalPages]
                          in bindE (copyPages pdfDoc remainingIndices) (\<lambda>otherPages.
                               Inr (save (foldl (\<lambda>d p. addPage p d) newPdfDoc otherPages)))
                        else Inr (save newPdfDoc))))"

text \<open>The configuration \<^verbatim>\<open>handlePortalAutoSplit\<close> passes for the Meesho portal.\<close>

definition meeshoConfig :: fixedConfig where
  "meeshoConfig =
     \<lparr>label = \<lparr>dim_width = 790, dim_height = 490\<rparr>,
      invoice = \<lparr>dim_width = 790, dim_height = 360\<rparr>,
      cfg_viewWidth = 800\<rparr>"

section \<open>The crop box interaction component\<close>

text \<open>
  The state of \<^verbatim>\<open>PDFCropper\<close>: the four \<^verbatim>\<open>useState\<close> cells and the \<^verbatim>\<open>startPos\<close> ref.
  A handler is one step on this state; it returns the new state and the arguments of
  its \<^verbatim>\<open>onCropChange\<close> calls, in order (\<open>None\<close> is the call with \<^verbatim>\<open>null\<close>). The
  parent hands every emitted box back as \<^verbatim>\<open>initialBox\<close>, which sets the same box again
  and is left out.
\<close>

datatype dragKind = Move | Resize | Create

record startPosition =
  screenX :: real
  screenY :: real
  logicalStartX :: real
  logicalStartY :: real
  boxX :: real
  boxY :: real
  boxW :: real
  boxH :: real

record cropper =
  box :: "CropBox option"
  isDragging :: bool
  dragType :: "dragKind option"
  resizeHandle :: "string option"
  startPos :: startPosition

text \<open>The props the handlers read: the page's natural size and the zoom factor.\<close>

record cropperProps =
  page_width :: real
  page_height :: real
  zoom :: real

text \<open>\<^verbatim>\<open>containerRef.current.getBoundingClientRect()\<close>, and the mouse event.\<close>

record domRect =
  rect_left :: real
  rect_top :: real

record mouseEvent =
  clientX :: real
  clientY :: real

text \<open>\<^verbatim>\<open>resizeHandle?.includes(c)\<close>: false when there is no handle.\<close>

definition handleIncludes :: "string option \<Rightarrow> char \<Rightarrow> bool" where
  "handleIncludes h c = (case h of None \<Rightarrow> False | Some s \<Rightarrow> c \<in> set s)"

definition handleMouseDown ::
  "cropperProps \<Rightarrow> domRect option \<Rightarrow> cropper \<Rightarrow> mouseEvent \<Rightarrow> dragKind \<Rightarrow> string option
     \<Rightarrow> cropper \<times> CropBox option list" where
  "handleMouseDown props container st e type handle =
     (case container of
        None \<Rightarrow> (st, [])
      | Some rect \<Rightarrow>
          let logicalX = (clientX e - rect_left rect) / zoom props;
              logicalY = (clientY e - rect_top rect) / zoom props;
              st1 = st\<lparr>isDragging := True,
                       dragType := Some type,
                       resizeHandle := (case handle of
                                          None \<Rightarrow> None
                                        | Some h \<Rightarrow> if h = [] then None else Some h),
                       startPos :=
                         \<lparr>screenX = clientX e,
                          screenY = clientY e,
                          logicalStartX = logicalX,
                          logicalStartY = logicalY,
                          boxX = (case box st of None \<Rightarrow> 0 | Some b \<Rightarrow> box_x b),
                          boxY = (case box st of None \<Rightarrow> 0 | Some b \<Rightarrow> box_y b),
                          boxW = (case box st of None \<Rightarrow> 0 | Some b \<Rightarrow> box_width b),
                          boxH = (case box st of None \<Rightarrow> 0 | Some b \<Rightarrow> box_height b)\<rparr>\<rparr>
          in if type = Create
             then let newBox = \<lparr>box_x = logicalX, box_y = logicalY,
                                 box_width = 0, box_height = 0\<rparr>
                  in (st1\<lparr>box := Some newBox\<rparr>, [Some newBox])
             else (st1, []))"

text \<open>The resize branch: the four tests on the handle's letters, in the source's order,
  each updating \<^verbatim>\<open>nextBox\<close>; \<open>b\<close> is the box of the current render.\<close>

definition resizeBox ::
  "cropperProps \<Rightarrow> startPosition \<Rightarrow> string option \<Rightarrow> CropBox \<Rightarrow> real \<Rightarrow> real \<Rightarrow> CropBox" where
  "resizeBox props sp h b dx dy =
     (let nextBox = b;
          nextBox = (if handleIncludes h CHR ''e''
                     then nextBox\<lparr>box_width :=
                            max 5 (min (page_width props - box_x b) (boxW sp + dx))\<rparr>
                     else nextBox);
          nextBox = (if handleIncludes h CHR ''s''
                     then nextBox\<lparr>box_height :=
                            max 5 (min (page_height props - box_y b) (boxH sp + dy))\<rparr>
                     else nextBox);
          nextBox = (if handleIncludes h CHR ''w''
                     then let delta = min (boxW sp - 5) dx
                          in nextBox\<lparr>box_x := max 0 (boxX sp + delta),
                                      box_width := boxW sp - delta\<rparr>
                     else nextBox);
          nextBox = (if handleIncludes h CHR ''n''
                     then let delta = min (boxH sp - 5) dy
                          in nextBox\<lparr>box_y := max 0 (boxH sp + delta),
                                      box_height := boxH sp - delta\<rparr>
                     else nextBox)
      in nextBox)"

text \<open>
  \<^verbatim>\<open>handleMouseMove\<close>. The first case is the guard
  \<^verbatim>\<open>!isDragging || !containerRef.current || !dragType\<close> not firing; the branches on the
  drag type are those of the source, in its order (\<^verbatim>\<open>'move' && box\<close>,
  \<^verbatim>\<open>'resize' && box\<close>), and without a \<^verbatim>\<open>nextBox\<close> nothing is set or emitted.
\<close>

definition handleMouseMove ::
  "cropperProps \<Rightarrow> domRect option \<Rightarrow> cropper \<Rightarrow> mouseEvent \<Rightarrow> cropper \<times> CropBox option list" where
  "handleMouseMove props container st e =
     (case (isDragging st, container, dragType st) of
        (True, Some rect, Some kind) \<Rightarrow>
          let currentLogicalX = (clientX e - rect_left rect) / zoom props;
              currentLogicalY = (clientY e - rect_top rect) / zoom props;
              boundedX = max 0 (min (page_width props) currentLogicalX);
              boundedY = max 0 (min (page_height props) currentLogicalY);
              dx = (clientX e - screenX (startPos st)) / zoom props;
              dy = (clientY e - screenY (startPos st)) / zoom props;
              nextBox =
                (if kind = Create
                 then Some \<lparr>box_x = min (logicalStartX (startPos st)) boundedX,
                            box_y = min (logicalStartY (startPos st)) boundedY,
                            box_width = \<bar>boundedX - logicalStartX (startPos st)\<bar>,
                            box_height = \<bar>boundedY - logicalStartY (startPos st)\<bar>\<rparr>
                 else case (kind, box st) of
                        (Move, Some b) \<Rightarrow>
                          Some (b\<lparr>box_x := max 0 (min (page_width props - box_width b)
                                                   (boxX (startPos st) + dx)),
                                  box_y := max 0 (min (page_height props - box_height b)
                                                   (boxY (startPos st) + dy))\<rparr>)
                      | (Resize, Some b) \<Rightarrow>
                          Some (resizeBox props (startPos st) (resizeHandle st) b dx dy)
                      | _ \<Rightarrow> None)
          in (case nextBox of
                None \<Rightarrow> (st, [])
              | Some nb \<Rightarrow> (st\<lparr>box := Some nb\<rparr>, [Some nb]))
      | _ \<Rightarrow> (st, []))"

definition handleMouseUp :: "cropper \<Rightarrow> cropper \<times> CropBox option list" where
  "handleMouseUp st =
     (let discard = (dragType st = Some Create \<and>
                     (case box st of
                        None \<Rightarrow> False
                      | Some b \<Rightarrow> box_width b < 5 \<or> box_height b < 5));
          st1 = (if discard then st\<lparr>box := None\<rparr> else st);
          calls = (if discard then [None] else [])
      in (st1\<lparr>isDragging := False, dragType := None, resizeHandle := None\<rparr>, calls))"

text \<open>The states of the specification's state machine (section 4.2), read off the
  component state: Idle (no box, no drag), Selected (box, no drag), Dragging.\<close>

datatype interaction = Idle | Selected | Dragging

definition interactionState :: "cropper \<Rightarrow> interaction" where
  "interactionState st =
     (if isDragging st then Dragging
      else case box st of None \<Rightarrow> Idle | Some b \<Rightarrow> Selected)"

text \<open>The bounds the specification's data model asks of a box (section 3): it lies
  within the page and has no negative extent.\<close>

definition withinPage :: "cropperProps \<Rightarrow> CropBox \<Rightarrow> bool" where
  "withinPage props b =
     (0 \<le> box_x b \<and> 0 \<le> box_y b
      \<and> box_x b + box_width b \<le> page_width props
      \<and> box_y b + box_height b \<le> page_height props
      \<and> 0 \<le> box_width b \<and> 0 \<le> box_height b)"

text \<open>A sequence of pointer-move events during one drag, each handled in turn.\<close>

fun dragMoves :: "cropperProps \<Rightarrow> domRect option \<Rightarrow> cropper \<Rightarrow> mouseEvent list \<Rightarrow> cropper" where
  "dragMoves props container st [] = st"
| "dragMoves props container st (e # es) =
     dragMoves props container (fst (handleMouseMove props container st e)) es"

section \<open>The orchestrating component and the detection service\<close>

text \<open>
  An awaited call either resolves with a value or rejects. What a function shows or
  logs on the way is a list of effects: \<^verbatim>\<open>alert\<close> is visible to the user,
  \<^verbatim>\<open>console.error\<close> is not.
\<close>

datatype 'a promise = Resolved 'a | Rejected

datatype effect = Alert string | ConsoleError string

text \<open>The percentages \<^verbatim>\<open>detectContentBounds\<close> asks the model for.\<close>

record Bounds =
  bounds_x :: real
  bounds_y :: real
  bounds_width :: real
  bounds_height :: real

text \<open>\<^verbatim>\<open>PDFPageData\<close> of \<^verbatim>\<open>types.ts\<close>.\<close>

record PDFPageData =
  pageNumber :: nat
  pd_width :: real
  pd_height :: real
  canvasUrl :: string

text \<open>
  What lies outside the repository is a parameter: \<open>renderPages\<close> is what
  \<^verbatim>\<open>renderPDFPages\<close> answers for a document; \<open>boundsAnswer\<close> and \<open>anchorAnswer\<close> are
  the \<^verbatim>\<open>text\<close> property of what \<^verbatim>\<open>generateContent\<close> answers to the prompt of
  \<^verbatim>\<open>detectContentBounds\<close> and of \<^verbatim>\<open>findTaxInvoiceAnchor\<close> for a page image (\<open>None\<close>
  when the property is undefined, \<open>Rejected\<close> when the call rejects); \<open>jsTrim\<close> is
  \<^verbatim>\<open>String.prototype.trim\<close>; \<open>parseBounds\<close> is \<^verbatim>\<open>JSON.parse\<close> (\<open>None\<close> when
  it throws, \<open>Some None\<close> when it gives \<^verbatim>\<open>null\<close> or another falsy value);
  \<open>parseAnchor\<close> is \<^verbatim>\<open>JSON.parse\<close> followed by the reading of \<^verbatim>\<open>anchorY\<close> (\<open>None\<close>
  when either throws, \<open>Some None\<close> when the field is absent).
\<close>

record collaborators =
  renderPages :: "pdf_doc \<Rightarrow> PDFPageData list promise"
  boundsAnswer :: "string \<Rightarrow> string option promise"
  anchorAnswer :: "string \<Rightarrow> string option promise"
  jsTrim :: "string \<Rightarrow> string"
  parseBounds :: "string \<Rightarrow> Bounds option option"
  parseAnchor :: "string \<Rightarrow> real option option"

text \<open>
  The two functions of \<^verbatim>\<open>geminiService.ts\<close>: the awaited result and what was logged.
  The rejection of \<^verbatim>\<open>generateContent\<close> is outside the \<^verbatim>\<open>try\<close> and passes through; a
  missing or empty text gives \<^verbatim>\<open>null\<close> silently; a throw inside the \<^verbatim>\<open>try\<close> is
  logged with \<^verbatim>\<open>console.error\<close> and gives \<^verbatim>\<open>null\<close>.
\<close>

definition detectContentBounds ::
  "collaborators \<Rightarrow> string \<Rightarrow> Bounds option promise \<times> effect list" where
  "detectContentBounds env imageDataUrl =
     (case boundsAnswer env imageDataUrl of
        Rejected \<Rightarrow> (Rejected, [])
      | Resolved text \<Rightarrow>
          (case map_option (jsTrim env) text of
             None \<Rightarrow> (Resolved None, [])
           | Some jsonStr \<Rightarrow>
               if jsonStr = [] then (Resolved None, [])
               else (case parseBounds env jsonStr of
                       None \<Rightarrow>
                         (Resolved None, [ConsoleError ''Failed to parse Gemini response''])
                     | Some v \<Rightarrow> (Resolved v, []))))"

definition findTaxInvoiceAnchor ::
  "collaborators \<Rightarrow> string \<Rightarrow> real option promise \<times> effect list" where
  "findTaxInvoiceAnchor env imageDataUrl =
     (case anchorAnswer env imageDataUrl of
        Rejected \<Rightarrow> (Rejected, [])
      | Resolved text \<Rightarrow>
          (case map_option (jsTrim env) text of
             None \<Rightarrow> (Resolved None, [])
           | Some jsonStr \<Rightarrow>
               if jsonStr = [] then (Resolved None, [])
               else (case parseAnchor env jsonStr of
                       None \<Rightarrow>
                         (Resolved None, [ConsoleError ''Failed to detect invoice anchor''])
                     | Some v \<Rightarrow> (Resolved v, []))))"

text \<open>The state cells of \<^verbatim>\<open>App\<close>.\<close>

datatype PortalType = Meesho | Amazon | Flipkart | NoPortal

record app =
  app_file :: "pdf_doc option"
  app_pages :: "PDFPageData list"
  currentPageIdx :: nat
  app_cropBox :: "CropBox option"
  isProcessing :: bool
  isAnalyzing :: bool
  cropScope :: targetPages
  app_zoom :: real
  activePortal :: PortalType
  isPortalMenuOpen :: bool
  isAutoPilot :: bool

text \<open>The \<^verbatim>\<open>try\<close> block of \<^verbatim>\<open>handlePortalAutoSplit\<close>: the new document and its
  rendered pages, or \<open>None\<close> when anything in it throws or rejects, with what the
  detection call logged. A number is truthy when it is not zero.\<close>

definition portalSplit ::
  "collaborators \<Rightarrow> PortalType \<Rightarrow> pdf_doc \<Rightarrow> PDFPageData list
     \<Rightarrow> (pdf_doc \<times> PDFPageData list) option \<times> effect list" where
  "portalSplit env portal targetFile renderedPages =
     (let (pdfBytes, logged) =
            (if portal = Meesho
             then (case splitEcomLabelFixed targetFile meeshoConfig of
                     Inl err \<Rightarrow> (None, [])
                   | Inr d \<Rightarrow> (Some d, []))
             else (case findTaxInvoiceAnchor env (canvasUrl (renderedPages ! 0)) of
                     (Rejected, logged) \<Rightarrow> (None, logged)
                   | (Resolved None, logged) \<Rightarrow> (None, logged)
                   | (Resolved (Some anchorYPercent), logged) \<Rightarrow>
                       if anchorYPercent = 0 then (None, logged)
                       else (case splitEcomLabel targetFile anchorYPercent of
                               Inl err \<Rightarrow> (None, logged)
                             | Inr d \<Rightarrow> (Some d, logged))))
      in case pdfBytes of
           None \<Rightarrow> (None, logged)
         | Some newFile \<Rightarrow>
             (case renderPages env newFile of
                Rejected \<Rightarrow> (None, logged)
              | Resolved newRenderedPages \<Rightarrow> (Some (newFile, newRenderedPages), logged)))"

definition handlePortalAutoSplit ::
  "collaborators \<Rightarrow> app \<Rightarrow> pdf_doc \<Rightarrow> PDFPageData list \<Rightarrow> app \<times> effect list" where
  "handlePortalAutoSplit env a targetFile renderedPages =
     (if length renderedPages = 0 then (a, [])
      else
        let a1 = a\<lparr>isAnalyzing := True\<rparr>
        in case portalSplit env (activePortal a) targetFile renderedPages of
             (Some (newFile, newRenderedPages), logged) \<Rightarrow>
               (a1\<lparr>app_pages := newRenderedPages,
                   app_file := Some newFile,
                   app_cropBox := None,
                   currentPageIdx := 0,
                   isAnalyzing := False\<rparr>, logged)
           | (None, logged) \<Rightarrow>
               (a1\<lparr>isAnalyzing := False\<rparr>,
                logged @ [ConsoleError ''Portal split error:'',
                          Alert ''Auto processing failed. Please adjust manually.'']))"

definition handleSmartCrop :: "collaborators \<Rightarrow> app \<Rightarrow> app \<times> effect list" where
  "handleSmartCrop env a =
     (case app_file a of
        None \<Rightarrow> (a, [])
      | Some file \<Rightarrow>
          if activePortal a \<noteq> NoPortal
          then handlePortalAutoSplit env a file (app_pages a)
          else if length (app_pages a) \<le> currentPageIdx a then (a, [])
          else
            let a1 = a\<lparr>isAnalyzing := True\<rparr>;
                page = app_pages a ! currentPageIdx a
            in case detectContentBounds env (canvasUrl page) of
                 (Rejected, logged) \<Rightarrow>
                   (a1\<lparr>isAnalyzing := False\<rparr>, logged @ [ConsoleError ''Smart crop error:''])
               | (Resolved None, logged) \<Rightarrow> (a1\<lparr>isAnalyzing := False\<rparr>, logged)
               | (Resolved (Some bounds), logged) \<Rightarrow>
                   let newBox = \<lparr>box_x = (bounds_x bounds / 100) * pd_width page,
                                 box_y = (bounds_y bounds / 100) * pd_height page,
                                 box_width = (bounds_width bounds / 100) * pd_width page,
                                 box_height = (bounds_height bounds / 100) * pd_height page\<rparr>
                   in (a1\<lparr>app_cropBox := Some newBox, isAnalyzing := False\<rparr>, logged))"

section \<open>Concrete inputs\<close>

text \<open>Documents, pages and boxes on which the theorems below are run.\<close>

definition a4Page :: pdf_page where
  "a4Page = \<lparr>mediaBox = \<lparr>rx = 0, ry = 0, rw = 595, rh = 842\<rparr>, cropBox = None, content = Stream 0\<rparr>"

definition smallPage :: pdf_page where
  "smallPage = \<lparr>mediaBox = \<lparr>rx = 0, ry = 0, rw = 300, rh = 400\<rparr>, cropBox = None, content = Stream 1\<rparr>"

definition a4Doc :: pdf_doc where
  "a4Doc = \<lparr>pages = [a4Page], origin = Loaded\<rparr>"

definition twoPageDoc :: pdf_doc where
  "twoPageDoc = \<lparr>pages = [a4Page, smallPage], origin = Loaded\<rparr>"

definition exampleBox :: CropBox where
  "exampleBox = \<lparr>box_x = 100, box_y = 50, box_width = 200, box_height = 300\<rparr>"

definition tallPage :: pdf_page where
  "tallPage = \<lparr>mediaBox = \<lparr>rx = 0, ry = 0, rw = 600, rh = 1000\<rparr>, cropBox = None, content = Stream 0\<rparr>"

definition tallDoc :: pdf_doc where
  "tallDoc = \<lparr>pages = [tallPage], origin = Loaded\<rparr>"

definition meeshoPage :: pdf_page where
  "meeshoPage = \<lparr>mediaBox = \<lparr>rx = 0, ry = 0, rw = 790, rh = 1000\<rparr>, cropBox = None, content = Stream 0\<rparr>"

definition meeshoDoc :: pdf_doc where
  "meeshoDoc = \<lparr>pages = [meeshoPage, smallPage], origin = Loaded\<rparr>"

definition emptyDoc :: pdf_doc where
  "emptyDoc = \<lparr>pages = [], origin = Loaded\<rparr>"

definition blankDoc :: pdf_doc where
  "blankDoc = \<lparr>pages = [defaultPage], origin = Loaded\<rparr>"

definition a4Cropped :: pdf_doc where
  "a4Cropped =
     \<lparr>pages =
        [\<lparr>mediaBox = \<lparr>rx = 74.375, ry = 547.3, rw = 148.75, rh = 252.6\<rparr>,
          cropBox = Some \<lparr>rx = 74.375, ry = 547.3, rw = 148.75, rh = 252.6\<rparr>, content = Stream 0\<rparr>],
      origin = Loaded\<rparr>"

definition meeshoSplit :: pdf_doc where
  "meeshoSplit =
     \<lparr>pages =
        [\<lparr>mediaBox = \<lparr>rx = 0, ry = 516.125, rw = 790, rh = 483.875\<rparr>,
          cropBox = Some \<lparr>rx = 0, ry = 516.125, rw = 790, rh = 483.875\<rparr>, content = Stream 0\<rparr>,
         \<lparr>mediaBox = \<lparr>rx = 0, ry = 160.625, rw = 790, rh = 355.5\<rparr>,
          cropBox = Some \<lparr>rx = 0, ry = 160.625, rw = 790, rh = 355.5\<rparr>, content = Stream 0\<rparr>,
         smallPage],
      origin = Created\<rparr>"

definition shortPage :: pdf_page where
  "shortPage = \<lparr>mediaBox = \<lparr>rx = 0, ry = 0, rw = 790, rh = 800\<rparr>, cropBox = None, content = Stream 0\<rparr>"

definition shortDoc :: pdf_doc where
  "shortDoc = \<lparr>pages = [shortPage], origin = Loaded\<rparr>"

definition zoomedProps :: cropperProps where
  "zoomedProps = \<lparr>page_width = 200, page_height = 200, zoom = 2\<rparr>"

definition containerRect :: domRect where
  "containerRect = \<lparr>rect_left = 600, rect_top = 100\<rparr>"

definition noStart :: startPosition where
  "noStart = \<lparr>screenX = 0, screenY = 0, logicalStartX = 0, logicalStartY = 0,
              boxX = 0, boxY = 0, boxW = 0, boxH = 0\<rparr>"

definition selectedBox :: CropBox where
  "selectedBox = \<lparr>box_x = 10, box_y = 100, box_width = 50, box_height = 40\<rparr>"

definition selectedState :: cropper where
  "selectedState = \<lparr>box = Some selectedBox, isDragging = False, dragType = None,
                     resizeHandle = None, startPos = noStart\<rparr>"

definition idleState :: cropper where
  "idleState = \<lparr>box = None, isDragging = False, dragType = None,
                 resizeHandle = None, startPos = noStart\<rparr>"

text \<open>Pointer-down on the north handle of \<open>selectedBox\<close>, at logical (35, 100).\<close>

definition northDrag :: cropper where
  "northDrag =
     \<lparr>box = Some selectedBox, isDragging = True, dragType = Some Resize,
      resizeHandle = Some ''n'',
      startPos = \<lparr>screenX = 670, screenY = 300, logicalStartX = 35, logicalStartY = 100,
                  boxX = 10, boxY = 100, boxW = 50, boxH = 40\<rparr>\<rparr>"

text \<open>Pointer-down on the west handle of \<open>selectedBox\<close>, at logical (10, 120).\<close>

definition westDrag :: cropper where
  "westDrag =
     \<lparr>box = Some selectedBox, isDragging = True, dragType = Some Resize,
      resizeHandle = Some ''w'',
      startPos = \<lparr>screenX = 620, screenY = 340, logicalStartX = 10, logicalStartY = 120,
                  boxX = 10, boxY = 100, boxW = 50, boxH = 40\<rparr>\<rparr>"

text \<open>A create-drag started at logical (10, 120), with a box of 3 by 30 and of 40 by 30.\<close>

definition tinyCreate :: cropper where
  "tinyCreate =
     \<lparr>box = Some \<lparr>box_x = 10, box_y = 120, box_width = 3, box_height = 30\<rparr>,
      isDragging = True, dragType = Some Create, resizeHandle = None,
      startPos = \<lparr>screenX = 620, screenY = 340, logicalStartX = 10, logicalStartY = 120,
                  boxX = 0, boxY = 0, boxW = 0, boxH = 0\<rparr>\<rparr>"

definition wideCreate :: cropper where
  "wideCreate =
     \<lparr>box = Some \<lparr>box_x = 10, box_y = 120, box_width = 40, box_height = 30\<rparr>,
      isDragging = True, dragType = Some Create, resizeHandle = None,
      startPos = \<lparr>screenX = 620, screenY = 340, logicalStartX = 10, logicalStartY = 120,
                  boxX = 0, boxY = 0, boxW = 0, boxH = 0\<rparr>\<rparr>"

definition renderedA4 :: PDFPageData where
  "renderedA4 = \<lparr>pageNumber = 1, pd_width = 892.5, pd_height = 1263, canvasUrl = ''data:a4''\<rparr>"

text \<open>The detection service answers without text, or with text that is not JSON.\<close>

definition noAnswer :: collaborators where
  "noAnswer =
     \<lparr>renderPages = (\<lambda>d. Rejected),
      boundsAnswer = (\<lambda>url. Resolved None),
      anchorAnswer = (\<lambda>url. Resolved None),
      jsTrim = (\<lambda>t. t),
      parseBounds = (\<lambda>t. None),
      parseAnchor = (\<lambda>t. None)\<rparr>"

definition garbledAnswer :: collaborators where
  "garbledAnswer =
     \<lparr>renderPages = (\<lambda>d. Rejected),
      boundsAnswer = (\<lambda>url. Resolved (Some ''Sorry'')),
      anchorAnswer = (\<lambda>url. Resolved (Some ''Sorry'')),
      jsTrim = (\<lambda>t. t),
      parseBounds = (\<lambda>t. None),
      parseAnchor = (\<lambda>t. None)\<rparr>"

definition cropApp :: app where
  "cropApp =
     \<lparr>app_file = Some a4Doc, app_pages = [renderedA4], currentPageIdx = 0,
      app_cropBox = Some exampleBox, isProcessing = False, isAnalyzing = False,
      cropScope = All, app_zoom = 0.8, activePortal = NoPortal,
      isPortalMenuOpen = False, isAutoPilot = False\<rparr>"

definition amazonApp :: app where
  "amazonApp = cropApp\<lparr>activePortal := Amazon\<rparr>"

section \<open>Properties of cropPDF\<close>

lemma save_nonempty: "pages d \<noteq> [] \<Longrightarrow> save d = d"
  by (simp add: save_def)

lemma save_empty: "pages d = [] \<Longrightarrow> save d = d\<lparr>pages := [defaultPage]\<rparr>"
  by (simp add: save_def addPage_def)

lemma mappedRect_eq:
  "mappedRect cb vw vh page =
     logicalToPdf cb (rw (mediaBox page)) (rh (mediaBox page)) vw vh"
  by (simp add: mappedRect_def logicalToPdf_def getSize_def Let_def)

lemma cropPage_boxes:
  "cropBox (cropPage cb vw vh page) = Some (mappedRect cb vw vh page)"
  "mediaBox (cropPage cb vw vh page) = mappedRect cb vw vh page"
  "content (cropPage cb vw vh page) = content page"
  by (simp_all add: cropPage_def setCropBox_def setMediaBox_def Let_def)

lemma cropLoop_result:
  "distinct is \<Longrightarrow> \<forall>i \<in> set is. i < length ps \<Longrightarrow>
   cropLoop cb vw vh is ps =
     Inr (map (\<lambda>i. if i \<in> set is then cropPage cb vw vh (ps ! i) else ps ! i) [0..<length ps])"
proof (induction "is" arbitrary: ps)
  case Nil
  then show ?case by (simp add: map_nth)
next
  case (Cons idx rest)
  let ?q = "ps[idx := cropPage cb vw vh (ps ! idx)]"
  have idx: "idx < length ps" and notin: "idx \<notin> set rest" and d: "distinct rest"
    using Cons.prems by auto
  have rng: "\<forall>i \<in> set rest. i < length ?q" using Cons.prems by simp
  have "cropLoop cb vw vh (idx # rest) ps = cropLoop cb vw vh rest ?q"
    using idx by simp
  also have "\<dots> = Inr (map (\<lambda>i. if i \<in> set rest then cropPage cb vw vh (?q ! i) else ?q ! i)
                          [0..<length ?q])"
    by (rule Cons.IH [OF d rng])
  also have "map (\<lambda>i. if i \<in> set rest then cropPage cb vw vh (?q ! i) else ?q ! i) [0..<length ?q]
           = map (\<lambda>i. if i \<in> set (idx # rest) then cropPage cb vw vh (ps ! i) else ps ! i)
               [0..<length ps]"
    using notin idx by (auto simp: nth_list_update)
  finally show ?case .
qed

lemma cropLoop_error:
  "\<exists>i \<in> set is. \<not> i < length ps \<Longrightarrow> cropLoop cb vw vh is ps = Inl TypeError"
  by (induction "is" arbitrary: ps) auto

lemma cropPDF_all:
  "cropPDF file cb All cur vw vh
     = Inr (save (file\<lparr>pages := map (cropPage cb vw vh) (pages file)\<rparr>))"
proof -
  have "cropLoop cb vw vh [0..<length (pages file)] (pages file)
      = Inr (map (\<lambda>i. if i \<in> set [0..<length (pages file)]
                        then cropPage cb vw vh (pages file ! i) else pages file ! i)
               [0..<length (pages file)])"
    by (rule cropLoop_result) simp_all
  also have "map (\<lambda>i. if i \<in> set [0..<length (pages file)]
                        then cropPage cb vw vh (pages file ! i) else pages file ! i)
               [0..<length (pages file)]
           = map (cropPage cb vw vh) (pages file)"
    by (rule nth_equalityI) simp_all
  finally show ?thesis
    by (simp add: cropPDF_def applyIndices_def bindE_def Let_def)
qed

lemma cropPDF_all_nonempty:
  "pages file \<noteq> [] \<Longrightarrow>
   cropPDF file cb All cur vw vh = Inr (file\<lparr>pages := map (cropPage cb vw vh) (pages file)\<rparr>)"
  by (simp add: cropPDF_all save_nonempty)

lemma cropPDF_all_empty:
  "pages file = [] \<Longrightarrow> cropPDF file cb All cur vw vh = Inr (file\<lparr>pages := [defaultPage]\<rparr>)"
  by (simp add: cropPDF_all save_empty)

lemma cropPDF_current:
  "cur < length (pages file) \<Longrightarrow>
   cropPDF file cb Current cur vw vh =
     Inr (file\<lparr>pages := (pages file)[cur := cropPage cb vw vh (pages file ! cur)]\<rparr>)"
proof -
  assume c: "cur < length (pages file)"
  then have "pages (file\<lparr>pages := (pages file)[cur := cropPage cb vw vh (pages file ! cur)]\<rparr>)
               \<noteq> []"
    by auto
  then show ?thesis
    using c by (simp add: cropPDF_def applyIndices_def bindE_def Let_def save_nonempty)
qed

lemma cropPDF_current_error:
  "\<not> cur < length (pages file) \<Longrightarrow> cropPDF file cb Current cur vw vh = Inl TypeError"
  by (simp add: cropPDF_def applyIndices_def bindE_def Let_def)

text \<open>
  Claim C1. For every crop box and every page that \<^verbatim>\<open>cropPDF\<close> targets (every page
  under scope \<^verbatim>\<open>all\<close>, the page at the current index under scope \<^verbatim>\<open>current\<close>), the
  call returns a document in which the crop box and the media box of that page are
  the rectangle of the specification's \<^verbatim>\<open>logicalToPdf\<close>: with
  scaleX = pageWidthPt / viewportWidthPx and scaleY = pageHeightPt / viewportHeightPx,
  pdfX = box.x * scaleX, pdfY = pageHeightPt - box.y * scaleY - box.height * scaleY,
  pdfW = box.width * scaleX, pdfH = box.height * scaleY, the page's point size being
  the one it has before the call.
\<close>

theorem cropPDF_maps_logical_box:
  assumes "idx \<in> set (applyIndices tp cur (pages file))"
      and "idx < length (pages file)"
  shows "\<exists>out. cropPDF file cb tp cur vw vh = Inr out
           \<and> cropBox (pages out ! idx)
               = Some (logicalToPdf cb (rw (mediaBox (pages file ! idx)))
                         (rh (mediaBox (pages file ! idx))) vw vh)
           \<and> mediaBox (pages out ! idx)
               = logicalToPdf cb (rw (mediaBox (pages file ! idx)))
                   (rh (mediaBox (pages file ! idx))) vw vh
           \<and> rx (mediaBox (pages out ! idx))
               = box_x cb * (rw (mediaBox (pages file ! idx)) / vw)
           \<and> ry (mediaBox (pages out ! idx))
               = rh (mediaBox (pages file ! idx))
                 - box_y cb * (rh (mediaBox (pages file ! idx)) / vh)
                 - box_height cb * (rh (mediaBox (pages file ! idx)) / vh)
           \<and> rw (mediaBox (pages out ! idx))
               = box_width cb * (rw (mediaBox (pages file ! idx)) / vw)
           \<and> rh (mediaBox (pages out ! idx))
               = box_height cb * (rh (mediaBox (pages file ! idx)) / vh)"
proof (cases tp)
  case All
  have ne: "pages file \<noteq> []" using assms(2) by auto
  show ?thesis
    using assms(2) unfolding All cropPDF_all_nonempty [OF ne]
    by (simp add: cropPage_boxes mappedRect_eq logicalToPdf_def)
next
  case Current
  have c: "idx = cur" using assms(1) by (simp add: Current applyIndices_def)
  show ?thesis
    using assms(2) unfolding Current c
    by (simp add: cropPDF_current cropPage_boxes mappedRect_eq logicalToPdf_def)
qed

theorem cropPDF_maps_logical_box_witness:
  "0 \<in> set (applyIndices Current 0 (pages a4Doc)) \<and> 0 < length (pages a4Doc)
   \<and> (\<exists>out. cropPDF a4Doc exampleBox Current 0 800 1000 = Inr out
          \<and> rx (mediaBox (pages out ! 0)) = 74.375
          \<and> rw (mediaBox (pages out ! 0)) = 148.75
          \<and> rh (mediaBox (pages out ! 0)) = 252.6)"
  using cropPDF_maps_logical_box [of 0 Current 0 a4Doc exampleBox 800 1000]
  by (auto simp add: applyIndices_def a4Doc_def a4Page_def exampleBox_def)

text \<open>
  Claim C4, as far as it holds. With a viewport of 800 by 1000 px, a page of 595 by
  842 pt and the logical box \<open>{x: 100, y: 50, width: 200, height: 300}\<close>, \<^verbatim>\<open>cropPDF\<close>
  (under either scope) sets the crop box and the media box of the page to
  x = 74.375, y = 547.3, w = 148.75, h = 252.6. The specification's example gives
  y = 491.95; its own formula, 842 - 50 * 0.842 - 300 * 0.842, is 547.3.
\<close>

theorem cropPDF_example:
  "cropPDF a4Doc exampleBox tp 0 800 1000 = Inr a4Cropped
   \<and> mediaBox (pages a4Cropped ! 0) = \<lparr>rx = 74.375, ry = 547.3, rw = 148.75, rh = 252.6\<rparr>
   \<and> cropBox (pages a4Cropped ! 0)
       = Some \<lparr>rx = 74.375, ry = 547.3, rw = 148.75, rh = 252.6\<rparr>"
  by (cases tp)
     (simp_all add: cropPDF_def applyIndices_def bindE_def cropPage_def mappedRect_def
        getSize_def setCropBox_def setMediaBox_def a4Doc_def a4Page_def exampleBox_def
        a4Cropped_def save_def Let_def)

text \<open>The instance of claim C4 as the specification states it: the rectangle the code
  sets differs from the one claimed (y is 547.3, not 491.95).\<close>

theorem cropPDF_example_counterexample:
  "cropPDF a4Doc exampleBox All 0 800 1000 = Inr a4Cropped
   \<and> mediaBox (pages a4Cropped ! 0)
       \<noteq> \<lparr>rx = 74.375, ry = 491.95, rw = 148.75, rh = 252.6\<rparr>
   \<and> cropBox (pages a4Cropped ! 0)
       \<noteq> Some \<lparr>rx = 74.375, ry = 491.95, rw = 148.75, rh = 252.6\<rparr>"
  by (simp add: cropPDF_def applyIndices_def bindE_def cropPage_def mappedRect_def
        getSize_def setCropBox_def setMediaBox_def a4Doc_def a4Page_def exampleBox_def
        a4Cropped_def save_def Let_def)

text \<open>
  Claim C7. Under scope \<^verbatim>\<open>all\<close>, \<^verbatim>\<open>cropPDF\<close> returns the document in which every page
  of the input has the mapped rectangle as both crop box and media box, the scale
  factors of each page taken from that page's own point width and height; page
  contents and the document are otherwise as before, and so is the page count of a
  document that has pages. (A document without pages has no page to crop, and what is
  saved holds the one blank default page that \<^verbatim>\<open>save()\<close> adds.) Under scope
  \<^verbatim>\<open>current\<close> with an index that names a page, only that page gets the rectangle and
  every other page is the page it was. (When the index names no page the call throws
  and returns no document.)
\<close>

theorem cropPDF_scope:
  "(\<exists>out. cropPDF file cb All cur vw vh = Inr out
        \<and> origin out = origin file
        \<and> (pages file \<noteq> [] \<longrightarrow> length (pages out) = length (pages file))
        \<and> (pages file = [] \<longrightarrow> pages out = [defaultPage])
        \<and> (\<forall>i < length (pages file).
              cropBox (pages out ! i)
                = Some (logicalToPdf cb (rw (mediaBox (pages file ! i)))
                          (rh (mediaBox (pages file ! i))) vw vh)
            \<and> mediaBox (pages out ! i)
                = logicalToPdf cb (rw (mediaBox (pages file ! i)))
                    (rh (mediaBox (pages file ! i))) vw vh
            \<and> content (pages out ! i) = content (pages file ! i)))
   \<and> (cur < length (pages file) \<longrightarrow>
        (\<exists>out. cropPDF file cb Current cur vw vh = Inr out
           \<and> length (pages out) = length (pages file) \<and> origin out = origin file
           \<and> cropBox (pages out ! cur)
                = Some (logicalToPdf cb (rw (mediaBox (pages file ! cur)))
                          (rh (mediaBox (pages file ! cur))) vw vh)
           \<and> mediaBox (pages out ! cur)
                = logicalToPdf cb (rw (mediaBox (pages file ! cur)))
                    (rh (mediaBox (pages file ! cur))) vw vh
           \<and> content (pages out ! cur) = content (pages file ! cur)
           \<and> (\<forall>j < length (pages file). j \<noteq> cur \<longrightarrow> pages out ! j = pages file ! j)))
   \<and> (\<not> cur < length (pages file) \<longrightarrow>
        cropPDF file cb Current cur vw vh = Inl TypeError)"
proof (intro conjI impI)
  show "\<exists>out. cropPDF file cb All cur vw vh = Inr out
        \<and> origin out = origin file
        \<and> (pages file \<noteq> [] \<longrightarrow> length (pages out) = length (pages file))
        \<and> (pages file = [] \<longrightarrow> pages out = [defaultPage])
        \<and> (\<forall>i < length (pages file).
              cropBox (pages out ! i)
                = Some (logicalToPdf cb (rw (mediaBox (pages file ! i)))
                          (rh (mediaBox (pages file ! i))) vw vh)
            \<and> mediaBox (pages out ! i)
                = logicalToPdf cb (rw (mediaBox (pages file ! i)))
                    (rh (mediaBox (pages file ! i))) vw vh
            \<and> content (pages out ! i) = content (pages file ! i))"
  proof (cases "pages file = []")
    case True
    then show ?thesis by (simp add: cropPDF_all_empty)
  next
    case False
    then show ?thesis
      by (simp add: cropPDF_all_nonempty cropPage_boxes mappedRect_eq)
  qed
next
  assume "cur < length (pages file)"
  then show "\<exists>out. cropPDF file cb Current cur vw vh = Inr out
           \<and> length (pages out) = length (pages file) \<and> origin out = origin file
           \<and> cropBox (pages out ! cur)
                = Some (logicalToPdf cb (rw (mediaBox (pages file ! cur)))
                          (rh (mediaBox (pages file ! cur))) vw vh)
           \<and> mediaBox (pages out ! cur)
                = logicalToPdf cb (rw (mediaBox (pages file ! cur)))
                    (rh (mediaBox (pages file ! cur))) vw vh
           \<and> content (pages out ! cur) = content (pages file ! cur)
           \<and> (\<forall>j < length (pages file). j \<noteq> cur \<longrightarrow> pages out ! j = pages file ! j)"
    by (simp add: cropPDF_current cropPage_boxes mappedRect_eq)
next
  assume "\<not> cur < length (pages file)"
  then show "cropPDF file cb Current cur vw vh = Inl TypeError"
    by (rule cropPDF_current_error)
qed

theorem cropPDF_scope_witness:
  "1 < length (pages twoPageDoc) \<and> pages twoPageDoc \<noteq> [] \<and> pages emptyDoc = []
   \<and> (\<exists>out. cropPDF twoPageDoc exampleBox Current 1 800 1000 = Inr out
          \<and> pages out ! 0 = a4Page
          \<and> mediaBox (pages out ! 1) = \<lparr>rx = 37.5, ry = 260, rw = 75, rh = 120\<rparr>)
   \<and> (\<exists>out. cropPDF twoPageDoc exampleBox All 1 800 1000 = Inr out
          \<and> length (pages out) = 2
          \<and> mediaBox (pages out ! 0) = \<lparr>rx = 74.375, ry = 547.3, rw = 148.75, rh = 252.6\<rparr>
          \<and> mediaBox (pages out ! 1) = \<lparr>rx = 37.5, ry = 260, rw = 75, rh = 120\<rparr>)
   \<and> (\<exists>out. cropPDF emptyDoc exampleBox All 1 800 1000 = Inr out
          \<and> pages out = [defaultPage])"
proof -
  have l: "1 < length (pages twoPageDoc)" by (simp add: twoPageDoc_def)
  have ne: "pages twoPageDoc \<noteq> []" by (simp add: twoPageDoc_def)
  have len: "length (pages twoPageDoc) = 2" by (simp add: twoPageDoc_def)
  have e: "pages emptyDoc = []" by (simp add: emptyDoc_def)
  have p: "pages twoPageDoc ! 0 = a4Page" "pages twoPageDoc ! 1 = smallPage"
    by (simp_all add: twoPageDoc_def)
  have r: "logicalToPdf exampleBox (rw (mediaBox smallPage)) (rh (mediaBox smallPage)) 800 1000
             = \<lparr>rx = 37.5, ry = 260, rw = 75, rh = 120\<rparr>"
          "logicalToPdf exampleBox (rw (mediaBox a4Page)) (rh (mediaBox a4Page)) 800 1000
             = \<lparr>rx = 74.375, ry = 547.3, rw = 148.75, rh = 252.6\<rparr>"
    by (simp_all add: logicalToPdf_def exampleBox_def smallPage_def a4Page_def)
  note t = cropPDF_scope [of twoPageDoc exampleBox 1 800 1000]
  from t l obtain out1 where
    o1: "cropPDF twoPageDoc exampleBox Current 1 800 1000 = Inr out1"
        "mediaBox (pages out1 ! 1)
           = logicalToPdf exampleBox (rw (mediaBox (pages twoPageDoc ! 1)))
               (rh (mediaBox (pages twoPageDoc ! 1))) 800 1000"
        "\<forall>j < length (pages twoPageDoc). j \<noteq> 1 \<longrightarrow> pages out1 ! j = pages twoPageDoc ! j"
    by blast
  from t ne obtain out2 where
    o2: "cropPDF twoPageDoc exampleBox All 1 800 1000 = Inr out2"
        "length (pages out2) = length (pages twoPageDoc)"
        "\<forall>i < length (pages twoPageDoc).
           cropBox (pages out2 ! i)
             = Some (logicalToPdf exampleBox (rw (mediaBox (pages twoPageDoc ! i)))
                       (rh (mediaBox (pages twoPageDoc ! i))) 800 1000)
         \<and> mediaBox (pages out2 ! i)
             = logicalToPdf exampleBox (rw (mediaBox (pages twoPageDoc ! i)))
                 (rh (mediaBox (pages twoPageDoc ! i))) 800 1000
         \<and> content (pages out2 ! i) = content (pages twoPageDoc ! i)"
    by blast
  from cropPDF_scope [of emptyDoc exampleBox 1 800 1000] e obtain out3 where
    o3: "cropPDF emptyDoc exampleBox All 1 800 1000 = Inr out3" "pages out3 = [defaultPage]"
    by blast
  have l0: "0 < length (pages twoPageDoc)" by (simp add: twoPageDoc_def)
  have a: "pages out1 ! 0 = a4Page" using o1(3) l0 p by auto
  have b: "mediaBox (pages out1 ! 1) = \<lparr>rx = 37.5, ry = 260, rw = 75, rh = 120\<rparr>"
    using o1(2) p r by simp
  have c: "mediaBox (pages out2 ! 0) = \<lparr>rx = 74.375, ry = 547.3, rw = 148.75, rh = 252.6\<rparr>"
    using o2(3) l0 p r by auto
  have d: "mediaBox (pages out2 ! 1) = \<lparr>rx = 37.5, ry = 260, rw = 75, rh = 120\<rparr>"
    using o2(3) l p r by auto
  have f: "length (pages out2) = 2" using o2(2) len by simp
  show ?thesis using l ne e o1(1) o2(1) o3 a b c d f by simp
qed

section \<open>Properties of the two split operations\<close>

lemma foldl_addPage:
  "foldl (\<lambda>d p. addPage p d) d ps = d\<lparr>pages := pages d @ ps\<rparr>"
  by (induction ps arbitrary: d) (simp_all add: addPage_def)

lemma copyPages_first:
  "pages file = p # rest \<Longrightarrow> copyPages file [0] = Inr [p]"
  by (simp add: copyPages_def)

lemma copyPages_remaining:
  assumes "pages file = p # rest"
  shows "copyPages file (tl [0..<length (pages file)]) = Inr rest"
proof -
  have t: "tl [0..<length (pages file)] = [Suc 0..<Suc (length rest)]"
    by (simp only: tl_upt assms list.size(4)) simp
  have m: "map (\<lambda>i. (p # rest) ! i) [Suc 0..<Suc (length rest)] = rest"
    by (rule nth_equalityI) (simp_all del: upt_Suc)
  have r: "\<forall>i \<in> set [Suc 0..<Suc (length rest)]. i < length (pages file)"
    using assms by (simp del: upt_Suc)
  show ?thesis
    unfolding t copyPages_def using m r by (simp del: upt_Suc add: assms)
qed

lemma split_tail:
  assumes "pages file = p # rest"
  shows "(if length (pages file) > 1
          then bindE (copyPages file (tl [0..<length (pages file)])) (\<lambda>otherPages.
                    Inr (save (foldl (\<lambda>d p. addPage p d) d otherPages)))
          else Inr (save d)) = Inr (save (d\<lparr>pages := pages d @ rest\<rparr>))"
proof (cases rest)
  case Nil
  then show ?thesis using assms by simp
next
  case (Cons q qs)
  then have "1 < length (pages file)" using assms by simp
  then show ?thesis
    by (simp only: if_True copyPages_remaining[OF assms] bindE_def sum.case
        foldl_addPage)
qed

lemma splitEcomLabel_cons:
  assumes "pages file = p # rest"
  shows "splitEcomLabel file a =
     Inr \<lparr>pages =
            [setMediaBox 0 (rh (mediaBox p) * (1 - a / 100)) (rw (mediaBox p))
               (rh (mediaBox p) - rh (mediaBox p) * (1 - a / 100))
               (setCropBox 0 (rh (mediaBox p) * (1 - a / 100)) (rw (mediaBox p))
                  (rh (mediaBox p) - rh (mediaBox p) * (1 - a / 100)) p),
             setMediaBox 0 0 (rw (mediaBox p)) (rh (mediaBox p) * (1 - a / 100))
               (setCropBox 0 0 (rw (mediaBox p)) (rh (mediaBox p) * (1 - a / 100)) p)] @ rest,
          origin = Created\<rparr>"
proof -
  have ne: "length (pages file) \<noteq> 0" using assms by simp
  have hd0: "pages file ! 0 = p" using assms by simp
  show ?thesis
    unfolding splitEcomLabel_def Let_def split_tail[OF assms] copyPages_first[OF assms]
    using ne hd0
    by (simp add: getSize_def bindE_def addPage_def PDFDocument_create_def save_def)
qed

lemma splitEcomLabelFixed_cons:
  assumes "pages file = p # rest"
  shows "splitEcomLabelFixed file config =
     Inr \<lparr>pages =
            [setMediaBox 0
               (rh (mediaBox p)
                  - dim_height (label config) * (rw (mediaBox p) / cfg_viewWidth config))
               (rw (mediaBox p))
               (dim_height (label config) * (rw (mediaBox p) / cfg_viewWidth config))
               (setCropBox 0
                  (rh (mediaBox p)
                     - dim_height (label config) * (rw (mediaBox p) / cfg_viewWidth config))
                  (rw (mediaBox p))
                  (dim_height (label config) * (rw (mediaBox p) / cfg_viewWidth config)) p),
             setMediaBox 0
               (max 0 (rh (mediaBox p)
                  - dim_height (label config) * (rw (mediaBox p) / cfg_viewWidth config)
                  - dim_height (invoice config) * (rw (mediaBox p) / cfg_viewWidth config)))
               (rw (mediaBox p))
               (dim_height (invoice config) * (rw (mediaBox p) / cfg_viewWidth config))
               (setCropBox 0
                  (max 0 (rh (mediaBox p)
                     - dim_height (label config) * (rw (mediaBox p) / cfg_viewWidth config)
                     - dim_height (invoice config) * (rw (mediaBox p) / cfg_viewWidth config)))
                  (rw (mediaBox p))
                  (dim_height (invoice config) * (rw (mediaBox p) / cfg_viewWidth config)) p)]
            @ rest,
          origin = Created\<rparr>"
proof -
  have ne: "length (pages file) \<noteq> 0" using assms by simp
  have hd0: "pages file ! 0 = p" using assms by simp
  show ?thesis
    unfolding splitEcomLabelFixed_def Let_def split_tail[OF assms] copyPages_first[OF assms]
    using ne hd0
    by (simp add: getSize_def bindE_def addPage_def PDFDocument_create_def save_def)
qed


text \<open>
  Claim C6. On a document with exactly one page, of height H, \<^verbatim>\<open>splitEcomLabel\<close> with
  anchor percentage a returns a freshly created document of two pages, both copies of
  that page with crop box and media box set alike: the first to the band from
  y = H * (1 - a / 100) up to y = H, the second to the band from y = 0 up to
  y = H * (1 - a / 100), each over the full width. With a = 60 and H = 1000 the bands
  are [400, 1000] and [0, 400].
\<close>

theorem splitEcomLabel_single_page:
  assumes "pages file = [p]"
  shows "\<exists>labelPage invoicePage.
           splitEcomLabel file a = Inr \<lparr>pages = [labelPage, invoicePage], origin = Created\<rparr>
         \<and> content labelPage = content p \<and> content invoicePage = content p
         \<and> cropBox labelPage = Some (mediaBox labelPage)
         \<and> cropBox invoicePage = Some (mediaBox invoicePage)
         \<and> rx (mediaBox labelPage) = 0 \<and> rw (mediaBox labelPage) = rw (mediaBox p)
         \<and> rx (mediaBox invoicePage) = 0 \<and> rw (mediaBox invoicePage) = rw (mediaBox p)
         \<and> ry (mediaBox labelPage) = rh (mediaBox p) * (1 - a / 100)
         \<and> ry (mediaBox labelPage) + rh (mediaBox labelPage) = rh (mediaBox p)
         \<and> ry (mediaBox invoicePage) = 0
         \<and> ry (mediaBox invoicePage) + rh (mediaBox invoicePage)
               = rh (mediaBox p) * (1 - a / 100)
         \<and> (rh (mediaBox p) = 1000 \<and> a = 60 \<longrightarrow>
               ry (mediaBox labelPage) = 400
             \<and> ry (mediaBox labelPage) + rh (mediaBox labelPage) = 1000
             \<and> ry (mediaBox invoicePage) = 0
             \<and> ry (mediaBox invoicePage) + rh (mediaBox invoicePage) = 400)"
proof -
  have "pages file = p # []" using assms by simp
  from splitEcomLabel_cons [OF this, of a] show ?thesis
    by (simp add: setCropBox_def setMediaBox_def)
qed

theorem splitEcomLabel_single_page_witness:
  "pages tallDoc = [tallPage]
   \<and> splitEcomLabel tallDoc 60 =
       Inr \<lparr>pages =
              [\<lparr>mediaBox = \<lparr>rx = 0, ry = 400, rw = 600, rh = 600\<rparr>,
                cropBox = Some \<lparr>rx = 0, ry = 400, rw = 600, rh = 600\<rparr>, content = Stream 0\<rparr>,
               \<lparr>mediaBox = \<lparr>rx = 0, ry = 0, rw = 600, rh = 400\<rparr>,
                cropBox = Some \<lparr>rx = 0, ry = 0, rw = 600, rh = 400\<rparr>, content = Stream 0\<rparr>],
            origin = Created\<rparr>"
proof -
  have p: "pages tallDoc = [tallPage]" by (simp add: tallDoc_def)
  from splitEcomLabel_single_page [OF p, of 60]
  obtain lp ip where
    r: "splitEcomLabel tallDoc 60 = Inr \<lparr>pages = [lp, ip], origin = Created\<rparr>"
    and c: "content lp = content tallPage" "content ip = content tallPage"
       "cropBox lp = Some (mediaBox lp)" "cropBox ip = Some (mediaBox ip)"
    and g: "rx (mediaBox lp) = 0" "rw (mediaBox lp) = rw (mediaBox tallPage)"
       "rx (mediaBox ip) = 0" "rw (mediaBox ip) = rw (mediaBox tallPage)"
       "ry (mediaBox lp) = rh (mediaBox tallPage) * (1 - 60 / 100)"
       "ry (mediaBox lp) + rh (mediaBox lp) = rh (mediaBox tallPage)"
       "ry (mediaBox ip) = 0"
       "ry (mediaBox ip) + rh (mediaBox ip) = rh (mediaBox tallPage) * (1 - 60 / 100)"
    by blast
  have lp: "lp = \<lparr>mediaBox = \<lparr>rx = 0, ry = 400, rw = 600, rh = 600\<rparr>,
                cropBox = Some \<lparr>rx = 0, ry = 400, rw = 600, rh = 600\<rparr>, content = Stream 0\<rparr>"
    using c g by (cases lp, cases "mediaBox lp") (simp add: tallPage_def)
  have ip: "ip = \<lparr>mediaBox = \<lparr>rx = 0, ry = 0, rw = 600, rh = 400\<rparr>,
                cropBox = Some \<lparr>rx = 0, ry = 0, rw = 600, rh = 400\<rparr>, content = Stream 0\<rparr>"
    using c g by (cases ip, cases "mediaBox ip") (simp add: tallPage_def)
  show ?thesis using p r lp ip by simp
qed

text \<open>
  Claim C8, as far as it holds. For the Meesho configuration (label height 490,
  invoice height 360, viewWidth 800) and a document whose first page is 790 pt wide
  and H pt high, the scale factor is 790 / 800 = 0.9875; the first output page is the
  top band of the first page, of height 490 * 0.9875 = 483.875 pt and ending at y = H;
  the second output page is a band of height 360 * 0.9875 = 355.5 pt starting at
  y = max 0 (H - 839.375), which lies directly beneath the first band whenever
  H is at least 839.375 pt; and the original pages after the first follow the two
  split pages unchanged.
\<close>

theorem splitEcomLabelFixed_meesho:
  assumes "pages file = p # rest" and "rw (mediaBox p) = 790"
  shows "rw (mediaBox p) / cfg_viewWidth meeshoConfig = 0.9875
       \<and> (\<exists>labelPage invoicePage.
             splitEcomLabelFixed file meeshoConfig
               = Inr \<lparr>pages = [labelPage, invoicePage] @ rest, origin = Created\<rparr>
           \<and> content labelPage = content p \<and> content invoicePage = content p
           \<and> cropBox labelPage = Some (mediaBox labelPage)
           \<and> cropBox invoicePage = Some (mediaBox invoicePage)
           \<and> rx (mediaBox labelPage) = 0 \<and> rw (mediaBox labelPage) = 790
           \<and> rx (mediaBox invoicePage) = 0 \<and> rw (mediaBox invoicePage) = 790
           \<and> rh (mediaBox labelPage) = 483.875
           \<and> ry (mediaBox labelPage) + rh (mediaBox labelPage) = rh (mediaBox p)
           \<and> rh (mediaBox invoicePage) = 355.5
           \<and> ry (mediaBox invoicePage) = max 0 (rh (mediaBox p) - 839.375)
           \<and> (839.375 \<le> rh (mediaBox p) \<longrightarrow>
                ry (mediaBox invoicePage) + rh (mediaBox invoicePage)
                  = ry (mediaBox labelPage)))"
  using splitEcomLabelFixed_cons [OF assms(1), of meeshoConfig] assms(2)
  by (simp add: setCropBox_def setMediaBox_def meeshoConfig_def)

theorem splitEcomLabelFixed_meesho_witness:
  "pages meeshoDoc = meeshoPage # [smallPage] \<and> rw (mediaBox meeshoPage) = 790
   \<and> (839.375::real) \<le> rh (mediaBox meeshoPage)
   \<and> splitEcomLabelFixed meeshoDoc meeshoConfig = Inr meeshoSplit"
proof -
  have p: "pages meeshoDoc = meeshoPage # [smallPage]" by (simp add: meeshoDoc_def)
  have w: "rw (mediaBox meeshoPage) = 790" by (simp add: meeshoPage_def)
  have h: "(839.375::real) \<le> rh (mediaBox meeshoPage)" by (simp add: meeshoPage_def)
  from splitEcomLabelFixed_meesho [OF p w] h
  obtain lp ip where
    r: "splitEcomLabelFixed meeshoDoc meeshoConfig
          = Inr \<lparr>pages = [lp, ip] @ [smallPage], origin = Created\<rparr>"
    and c: "content lp = content meeshoPage" "content ip = content meeshoPage"
       "cropBox lp = Some (mediaBox lp)" "cropBox ip = Some (mediaBox ip)"
    and g: "rx (mediaBox lp) = 0" "rw (mediaBox lp) = 790"
       "rx (mediaBox ip) = 0" "rw (mediaBox ip) = 790"
       "rh (mediaBox lp) = 483.875"
       "ry (mediaBox lp) + rh (mediaBox lp) = rh (mediaBox meeshoPage)"
       "rh (mediaBox ip) = 355.5"
       "ry (mediaBox ip) + rh (mediaBox ip) = ry (mediaBox lp)"
    by blast
  have lp: "lp = \<lparr>mediaBox = \<lparr>rx = 0, ry = 516.125, rw = 790, rh = 483.875\<rparr>,
          cropBox = Some \<lparr>rx = 0, ry = 516.125, rw = 790, rh = 483.875\<rparr>, content = Stream 0\<rparr>"
    using c g by (cases lp, cases "mediaBox lp") (simp add: meeshoPage_def)
  have ip: "ip = \<lparr>mediaBox = \<lparr>rx = 0, ry = 160.625, rw = 790, rh = 355.5\<rparr>,
          cropBox = Some \<lparr>rx = 0, ry = 160.625, rw = 790, rh = 355.5\<rparr>, content = Stream 0\<rparr>"
    using c g lp by (cases ip, cases "mediaBox ip") (simp add: meeshoPage_def)
  show ?thesis using p w h r lp ip by (simp add: meeshoSplit_def)
qed

text \<open>Claim C8 as the specification states it: on a first page of 790 by 1000 pt the
  first band is 483.875 pt high, not 484.875.\<close>

theorem splitEcomLabelFixed_meesho_counterexample:
  "splitEcomLabelFixed meeshoDoc meeshoConfig = Inr meeshoSplit
   \<and> rh (mediaBox (pages meeshoSplit ! 0)) \<noteq> 484.875
   \<and> rh (the (cropBox (pages meeshoSplit ! 0))) \<noteq> 484.875"
proof -
  have p: "pages meeshoDoc = meeshoPage # [smallPage]" by (simp add: meeshoDoc_def)
  show ?thesis
    using splitEcomLabelFixed_cons [OF p, of meeshoConfig]
    by (simp add: setCropBox_def setMediaBox_def meeshoConfig_def meeshoPage_def
        meeshoSplit_def)
qed

text \<open>On a first page lower than 839.375 pt the second band starts at y = 0 and
  overlaps the first one: here the bands are [316.125, 800] and [0, 355.5].\<close>

lemma splitEcomLabelFixed_short_page:
  "splitEcomLabelFixed shortDoc meeshoConfig =
     Inr \<lparr>pages =
        [\<lparr>mediaBox = \<lparr>rx = 0, ry = 316.125, rw = 790, rh = 483.875\<rparr>,
          cropBox = Some \<lparr>rx = 0, ry = 316.125, rw = 790, rh = 483.875\<rparr>, content = Stream 0\<rparr>,
         \<lparr>mediaBox = \<lparr>rx = 0, ry = 0, rw = 790, rh = 355.5\<rparr>,
          cropBox = Some \<lparr>rx = 0, ry = 0, rw = 790, rh = 355.5\<rparr>, content = Stream 0\<rparr>],
      origin = Created\<rparr>"
proof -
  have p: "pages shortDoc = shortPage # []" by (simp add: shortDoc_def)
  show ?thesis
    using splitEcomLabelFixed_cons [OF p, of meeshoConfig]
    by (simp add: setCropBox_def setMediaBox_def meeshoConfig_def shortPage_def)
qed

text \<open>
  Claim C10, as far as it holds. On a document with no page, \<^verbatim>\<open>splitEcomLabel\<close> (for
  any anchor percentage) and \<^verbatim>\<open>splitEcomLabelFixed\<close> (for any configuration) return
  the loaded document re-saved: no page of it is removed or cropped and the freshly
  created document is not used, but \<^verbatim>\<open>save()\<close> adds its blank default page (A4,
  595.28 by 841.89 pt, no crop box), so that the returned document has exactly one
  page.
\<close>

theorem split_zero_pages_saved:
  assumes "pages file = []"
  shows "splitEcomLabel file anchorYPercent = Inr (file\<lparr>pages := [defaultPage]\<rparr>)
       \<and> splitEcomLabelFixed file config = Inr (file\<lparr>pages := [defaultPage]\<rparr>)
       \<and> save file = file\<lparr>pages := [defaultPage]\<rparr>
       \<and> cropBox defaultPage = None \<and> content defaultPage = Blank
       \<and> mediaBox defaultPage = \<lparr>rx = 0, ry = 0, rw = 595.28, rh = 841.89\<rparr>"
  using assms
  by (simp add: splitEcomLabel_def splitEcomLabelFixed_def save_empty defaultPage_def)

theorem split_zero_pages_saved_witness:
  "pages emptyDoc = []
   \<and> splitEcomLabel emptyDoc 60 = Inr blankDoc
   \<and> splitEcomLabelFixed emptyDoc meeshoConfig = Inr blankDoc"
  using split_zero_pages_saved [of emptyDoc 60 meeshoConfig]
  by (simp add: emptyDoc_def blankDoc_def)

text \<open>Claim C10 as stated: on the document without pages both functions return a
  document of one page, so a page was added.\<close>

theorem split_zero_pages_counterexample:
  "length (pages emptyDoc) = 0
   \<and> splitEcomLabel emptyDoc 60 = Inr blankDoc
   \<and> splitEcomLabelFixed emptyDoc meeshoConfig = Inr blankDoc
   \<and> length (pages blankDoc) = 1
   \<and> blankDoc \<noteq> emptyDoc"
  by (simp add: splitEcomLabel_def splitEcomLabelFixed_def save_def addPage_def
      emptyDoc_def blankDoc_def)

section \<open>Properties of the interaction component\<close>

lemma handleMouseDown_create:
  "handleMouseDown props (Some rect) st e Create h = (st', calls) \<Longrightarrow>
   isDragging st' \<and> dragType st' = Some Create \<and> box st' \<noteq> None \<and> calls = [box st']"
  by (auto simp: handleMouseDown_def Let_def)

lemma handleMouseMove_create:
  assumes "dragType st = Some Create" and "box st \<noteq> None"
  shows "dragType (fst (handleMouseMove props container st e)) = Some Create
       \<and> box (fst (handleMouseMove props container st e)) \<noteq> None"
  using assms
  by (cases container; cases "isDragging st") (simp_all add: handleMouseMove_def Let_def)

lemma dragMoves_create:
  "dragType st = Some Create \<Longrightarrow> box st \<noteq> None \<Longrightarrow>
   dragType (dragMoves props container st es) = Some Create
   \<and> box (dragMoves props container st es) \<noteq> None"
proof (induction es arbitrary: st)
  case Nil
  then show ?case by simp
next
  case (Cons e es)
  from handleMouseMove_create [OF Cons.prems, of props container e]
  show ?case by (simp add: Cons.IH)
qed

lemma handleMouseMove_create_eq:
  assumes "isDragging st" and "dragType st = Some Create"
  shows "snd (handleMouseMove props (Some rect) st e) =
     [Some \<lparr>box_x = min (logicalStartX (startPos st))
                      (max 0 (min (page_width props) ((clientX e - rect_left rect) / zoom props))),
            box_y = min (logicalStartY (startPos st))
                      (max 0 (min (page_height props) ((clientY e - rect_top rect) / zoom props))),
            box_width = \<bar>max 0 (min (page_width props) ((clientX e - rect_left rect) / zoom props))
                          - logicalStartX (startPos st)\<bar>,
            box_height = \<bar>max 0 (min (page_height props) ((clientY e - rect_top rect) / zoom props))
                          - logicalStartY (startPos st)\<bar>\<rparr>]"
  using assms by (simp add: handleMouseMove_def Let_def)

lemma handleMouseMove_move_eq:
  assumes "isDragging st" and "dragType st = Some Move" and "box st = Some b"
  shows "snd (handleMouseMove props (Some rect) st e) =
     [Some (b\<lparr>box_x := max 0 (min (page_width props - box_width b)
                             (boxX (startPos st)
                                + (clientX e - screenX (startPos st)) / zoom props)),
               box_y := max 0 (min (page_height props - box_height b)
                             (boxY (startPos st)
                                + (clientY e - screenY (startPos st)) / zoom props))\<rparr>)]"
  using assms by (simp add: handleMouseMove_def Let_def)

lemma handleMouseMove_resize_eq:
  assumes "isDragging st" and "dragType st = Some Resize" and "box st = Some b"
  shows "snd (handleMouseMove props (Some rect) st e) =
     [Some (resizeBox props (startPos st) (resizeHandle st) b
              ((clientX e - screenX (startPos st)) / zoom props)
              ((clientY e - screenY (startPos st)) / zoom props))]"
  using assms by (simp add: handleMouseMove_def Let_def)

lemma resizeBox_east:
  "resizeBox props sp (Some ''e'') b dx dy =
     b\<lparr>box_width := max 5 (min (page_width props - box_x b) (boxW sp + dx))\<rparr>"
  by (simp add: resizeBox_def handleIncludes_def)

lemma resizeBox_south:
  "resizeBox props sp (Some ''s'') b dx dy =
     b\<lparr>box_height := max 5 (min (page_height props - box_y b) (boxH sp + dy))\<rparr>"
  by (simp add: resizeBox_def handleIncludes_def)

lemma resizeBox_west:
  "resizeBox props sp (Some ''w'') b dx dy =
     b\<lparr>box_x := max 0 (boxX sp + min (boxW sp - 5) dx),
       box_width := boxW sp - min (boxW sp - 5) dx\<rparr>"
  by (simp add: resizeBox_def handleIncludes_def Let_def)

lemma resizeBox_north:
  "resizeBox props sp (Some ''n'') b dx dy =
     b\<lparr>box_y := max 0 (boxH sp + min (boxH sp - 5) dy),
       box_height := boxH sp - min (boxH sp - 5) dy\<rparr>"
  by (simp add: resizeBox_def handleIncludes_def Let_def)

lemma clamp_bounds:
  "0 \<le> (w::real) \<Longrightarrow> 0 \<le> max 0 (min w c) \<and> max 0 (min w c) \<le> w"
  by simp

lemma span_bounds:
  "0 \<le> s \<Longrightarrow> s \<le> w \<Longrightarrow> 0 \<le> t \<Longrightarrow> t \<le> (w::real) \<Longrightarrow>
   0 \<le> min s t \<and> min s t + \<bar>t - s\<bar> \<le> w"
  by linarith

lemma move_bounds:
  "0 \<le> (w::real) - bw \<Longrightarrow>
   0 \<le> max 0 (min (w - bw) v) \<and> max 0 (min (w - bw) v) + bw \<le> w"
  by linarith

lemma grow_bounds:
  "5 \<le> (w::real) - x \<Longrightarrow>
   5 \<le> max 5 (min (w - x) v) \<and> x + max 5 (min (w - x) v) \<le> w"
  by linarith

lemma shrink_bounds:
  "5 \<le> (w::real) - min (w - 5) d \<and> 0 \<le> max 0 (x + min (w - 5) d)
   \<and> x + w \<le> max 0 (x + min (w - 5) d) + (w - min (w - 5) d)"
  by linarith

lemma shrink_fixed_edge:
  "0 \<le> (x::real) \<and> 5 \<le> w \<and> 0 \<le> x + d \<longrightarrow>
   max 0 (x + min (w - 5) d) + (w - min (w - 5) d) = x + w"
  by linarith

text \<open>
  What the pointer-move handler guarantees, drag by drag. A create-drag that started
  inside the page and a move of a box that lies within the page emit boxes within the
  page. The east and south handles keep the opposite edge and the page bounds and never
  go below 5 units.
\<close>

lemma create_within_page:
  assumes "isDragging st" and "dragType st = Some Create"
      and "0 \<le> logicalStartX (startPos st)" "logicalStartX (startPos st) \<le> page_width props"
      and "0 \<le> logicalStartY (startPos st)" "logicalStartY (startPos st) \<le> page_height props"
      and "zoom props \<noteq> 0"
  shows "\<exists>nb. snd (handleMouseMove props (Some rect) st e) = [Some nb] \<and> withinPage props nb"
proof -
  let ?bx = "max 0 (min (page_width props) ((clientX e - rect_left rect) / zoom props))"
  let ?by = "max 0 (min (page_height props) ((clientY e - rect_top rect) / zoom props))"
  have w: "0 \<le> page_width props" "0 \<le> page_height props" using assms(3-6) by linarith+
  have bx: "0 \<le> ?bx \<and> ?bx \<le> page_width props" by (rule clamp_bounds [OF w(1)])
  have by': "0 \<le> ?by \<and> ?by \<le> page_height props" by (rule clamp_bounds [OF w(2)])
  have x: "0 \<le> min (logicalStartX (startPos st)) ?bx
         \<and> min (logicalStartX (startPos st)) ?bx + \<bar>?bx - logicalStartX (startPos st)\<bar>
             \<le> page_width props"
    using span_bounds [OF assms(3,4)] bx by blast
  have y: "0 \<le> min (logicalStartY (startPos st)) ?by
         \<and> min (logicalStartY (startPos st)) ?by + \<bar>?by - logicalStartY (startPos st)\<bar>
             \<le> page_height props"
    using span_bounds [OF assms(5,6)] by' by blast
  show ?thesis
    unfolding handleMouseMove_create_eq [OF assms(1,2)] withinPage_def
    using x y by simp
qed

lemma move_within_page:
  assumes "isDragging st" and "dragType st = Some Move" and "box st = Some b"
      and "withinPage props b"
      and "zoom props \<noteq> 0"
  shows "\<exists>nb. snd (handleMouseMove props (Some rect) st e) = [Some nb] \<and> withinPage props nb
           \<and> box_width nb = box_width b \<and> box_height nb = box_height b"
proof -
  have w: "0 \<le> page_width props - box_width b" "0 \<le> page_height props - box_height b"
          "0 \<le> box_width b" "0 \<le> box_height b"
    using assms(4) by (simp_all add: withinPage_def)
  show ?thesis
    unfolding handleMouseMove_move_eq [OF assms(1-3)] withinPage_def
    using move_bounds [OF w(1)] move_bounds [OF w(2)] w(3,4) by simp
qed

lemma resize_east:
  assumes "isDragging st" and "dragType st = Some Resize" and "box st = Some b"
      and "resizeHandle st = Some ''e''"
      and "withinPage props b" and "5 \<le> box_width b"
      and "zoom props \<noteq> 0"
  shows "\<exists>nb. snd (handleMouseMove props (Some rect) st e) = [Some nb] \<and> withinPage props nb
           \<and> box_x nb = box_x b \<and> box_y nb = box_y b \<and> box_height nb = box_height b
           \<and> 5 \<le> box_width nb"
proof -
  have w: "5 \<le> page_width props - box_x b" using assms(5,6) by (simp add: withinPage_def)
  have g: "0 \<le> max 5 (min (page_width props - box_x b)
                   (boxW (startPos st) + (clientX e - screenX (startPos st)) / zoom props))"
    by simp
  show ?thesis
    unfolding handleMouseMove_resize_eq [OF assms(1-3)] assms(4) resizeBox_east
    using assms(5) grow_bounds [OF w] g by (simp add: withinPage_def)
qed

lemma resize_south:
  assumes "isDragging st" and "dragType st = Some Resize" and "box st = Some b"
      and "resizeHandle st = Some ''s''"
      and "withinPage props b" and "5 \<le> box_height b"
      and "zoom props \<noteq> 0"
  shows "\<exists>nb. snd (handleMouseMove props (Some rect) st e) = [Some nb] \<and> withinPage props nb
           \<and> box_x nb = box_x b \<and> box_y nb = box_y b \<and> box_width nb = box_width b
           \<and> 5 \<le> box_height nb"
proof -
  have w: "5 \<le> page_height props - box_y b" using assms(5,6) by (simp add: withinPage_def)
  have g: "0 \<le> max 5 (min (page_height props - box_y b)
                   (boxH (startPos st) + (clientY e - screenY (startPos st)) / zoom props))"
    by simp
  show ?thesis
    unfolding handleMouseMove_resize_eq [OF assms(1-3)] assms(4) resizeBox_south
    using assms(5) grow_bounds [OF w] g by (simp add: withinPage_def)
qed

text \<open>
  The west handle never goes below 5 units of width nor left of the page, and it keeps
  the east edge as long as the dragged edge stays on the page; once the pointer is left
  of the page, \<open>x\<close> stops at 0 while the width keeps growing, so the east edge moves
  right. The north handle computes \<open>y\<close> from the start height \<^verbatim>\<open>boxH\<close> instead of the
  start position \<^verbatim>\<open>boxY\<close>: the south edge ends at twice the start height, wherever the
  box was.
\<close>

lemma resize_west:
  assumes "isDragging st" and "dragType st = Some Resize" and "box st = Some b"
      and "resizeHandle st = Some ''w''"
      and "zoom props \<noteq> 0"
  shows "\<exists>nb. snd (handleMouseMove props (Some rect) st e) = [Some nb]
           \<and> box_y nb = box_y b \<and> box_height nb = box_height b
           \<and> 5 \<le> box_width nb \<and> 0 \<le> box_x nb
           \<and> boxX (startPos st) + boxW (startPos st) \<le> box_x nb + box_width nb
           \<and> (0 \<le> boxX (startPos st) \<and> 5 \<le> boxW (startPos st)
               \<and> 0 \<le> boxX (startPos st) + (clientX e - screenX (startPos st)) / zoom props
                \<longrightarrow> box_x nb + box_width nb = boxX (startPos st) + boxW (startPos st))"
  unfolding handleMouseMove_resize_eq [OF assms(1-3)] assms(4) resizeBox_west
  using shrink_bounds [of "boxW (startPos st)"
          "(clientX e - screenX (startPos st)) / zoom props" "boxX (startPos st)"]
        shrink_fixed_edge [of "boxX (startPos st)" "boxW (startPos st)"
          "(clientX e - screenX (startPos st)) / zoom props"]
  by simp

lemma resize_north:
  assumes "isDragging st" and "dragType st = Some Resize" and "box st = Some b"
      and "resizeHandle st = Some ''n''"
      and "zoom props \<noteq> 0"
  shows "\<exists>nb. snd (handleMouseMove props (Some rect) st e) = [Some nb]
           \<and> box_x nb = box_x b \<and> box_width nb = box_width b
           \<and> 5 \<le> box_height nb \<and> 0 \<le> box_y nb
           \<and> (5 \<le> boxH (startPos st)
               \<and> 0 \<le> boxH (startPos st) + (clientY e - screenY (startPos st)) / zoom props
                \<longrightarrow> box_y nb + box_height nb = 2 * boxH (startPos st))"
  unfolding handleMouseMove_resize_eq [OF assms(1-3)] assms(4) resizeBox_north
  using shrink_bounds [of "boxH (startPos st)"
          "(clientY e - screenY (startPos st)) / zoom props" "boxH (startPos st)"]
        shrink_fixed_edge [of "boxH (startPos st)" "boxH (startPos st)"
          "(clientY e - screenY (startPos st)) / zoom props"]
  by simp

text \<open>
  Claim C2, evaluated on the code. The box \<open>{x: 10, y: 100, width: 50, height: 40}\<close> is
  selected on a page of 200 by 200 at zoom 2. Pointer-down on its north handle followed
  by a pointer-move that does not move the pointer at all emits the box
  \<open>{x: 10, y: 40, width: 50, height: 40}\<close>: the south edge, at 140 before the drag, is at
  80 after it, where the claim has it fixed.
\<close>

theorem resize_north_example:
  "handleMouseDown zoomedProps (Some containerRect) selectedState
      \<lparr>clientX = 670, clientY = 300\<rparr> Resize (Some ''n'') = (northDrag, [])
   \<and> handleMouseMove zoomedProps (Some containerRect) northDrag \<lparr>clientX = 670, clientY = 300\<rparr>
       = (northDrag\<lparr>box := Some \<lparr>box_x = 10, box_y = 40, box_width = 50, box_height = 40\<rparr>\<rparr>,
          [Some \<lparr>box_x = 10, box_y = 40, box_width = 50, box_height = 40\<rparr>])
   \<and> box_y selectedBox + box_height selectedBox = 140
   \<and> box_y \<lparr>box_x = 10, box_y = 40, box_width = 50, box_height = 40\<rparr>
       + box_height \<lparr>box_x = 10, box_y = 40, box_width = 50, box_height = (40::real)\<rparr> = 80"
  by (simp add: handleMouseDown_def handleMouseMove_def resizeBox_def handleIncludes_def
      zoomedProps_def containerRect_def selectedState_def selectedBox_def noStart_def
      northDrag_def Let_def)

text \<open>
  Claim C3, evaluated on the code. With the same box selected, pointer-down on the west
  handle followed by a pointer-move 220 logical units to the left emits the box
  \<open>{x: 0, y: 100, width: 270, height: 40}\<close>, whose right edge (270) is beyond the page
  width (200): the emitted box is not within the page.
\<close>

theorem resize_west_example:
  "handleMouseDown zoomedProps (Some containerRect) selectedState
      \<lparr>clientX = 620, clientY = 340\<rparr> Resize (Some ''w'') = (westDrag, [])
   \<and> handleMouseMove zoomedProps (Some containerRect) westDrag \<lparr>clientX = 180, clientY = 340\<rparr>
       = (westDrag\<lparr>box := Some \<lparr>box_x = 0, box_y = 100, box_width = 270, box_height = 40\<rparr>\<rparr>,
          [Some \<lparr>box_x = 0, box_y = 100, box_width = 270, box_height = 40\<rparr>])
   \<and> page_width zoomedProps = 200
   \<and> \<not> withinPage zoomedProps \<lparr>box_x = 0, box_y = 100, box_width = 270, box_height = 40\<rparr>"
  by (simp add: handleMouseDown_def handleMouseMove_def resizeBox_def handleIncludes_def
      zoomedProps_def containerRect_def selectedState_def selectedBox_def noStart_def
      westDrag_def withinPage_def Let_def)

text \<open>
  Claim C5. At pointer-up during a create-drag that has a box: when the box is less
  than 5 wide or less than 5 high, the box becomes null, \<^verbatim>\<open>onCropChange\<close> is called
  once, with null, and the component is Idle; otherwise the box is kept, no callback
  is made, and the component is Selected. In both cases the drag session is cleared.
  (By \<open>handleMouseDown_create\<close> and \<open>dragMoves_create\<close>, every create-drag is in such a
  state when pointer-up arrives.)
\<close>

theorem handleMouseUp_create:
  assumes "dragType st = Some Create" and "box st = Some b"
  shows "(box_width b < 5 \<or> box_height b < 5 \<longrightarrow>
            handleMouseUp st
              = (st\<lparr>box := None, isDragging := False, dragType := None,
                     resizeHandle := None\<rparr>, [None])
          \<and> box (fst (handleMouseUp st)) = None
          \<and> interactionState (fst (handleMouseUp st)) = Idle)
       \<and> (\<not> (box_width b < 5 \<or> box_height b < 5) \<longrightarrow>
            handleMouseUp st
              = (st\<lparr>isDragging := False, dragType := None, resizeHandle := None\<rparr>, [])
          \<and> box (fst (handleMouseUp st)) = Some b
          \<and> interactionState (fst (handleMouseUp st)) = Selected)"
  using assms by (simp add: handleMouseUp_def interactionState_def Let_def)

theorem handleMouseUp_create_witness:
  "handleMouseMove zoomedProps (Some containerRect)
      (fst (handleMouseDown zoomedProps (Some containerRect) idleState
              \<lparr>clientX = 620, clientY = 340\<rparr> Create None))
      \<lparr>clientX = 626, clientY = 400\<rparr>
     = (tinyCreate, [box tinyCreate])
   \<and> handleMouseUp tinyCreate
     = (tinyCreate\<lparr>box := None, isDragging := False, dragType := None,
                   resizeHandle := None\<rparr>, [None])
   \<and> interactionState (fst (handleMouseUp tinyCreate)) = Idle
   \<and> handleMouseUp wideCreate
     = (wideCreate\<lparr>isDragging := False, dragType := None, resizeHandle := None\<rparr>, [])
   \<and> interactionState (fst (handleMouseUp wideCreate)) = Selected"
proof -
  have m: "handleMouseMove zoomedProps (Some containerRect)
      (fst (handleMouseDown zoomedProps (Some containerRect) idleState
              \<lparr>clientX = 620, clientY = 340\<rparr> Create None))
      \<lparr>clientX = 626, clientY = 400\<rparr>
     = (tinyCreate, [box tinyCreate])"
    by (simp add: handleMouseDown_def handleMouseMove_def zoomedProps_def containerRect_def
        idleState_def noStart_def tinyCreate_def Let_def)
  have t: "dragType tinyCreate = Some Create"
      "box tinyCreate = Some \<lparr>box_x = 10, box_y = 120, box_width = 3, box_height = 30\<rparr>"
    by (simp_all add: tinyCreate_def)
  have w: "dragType wideCreate = Some Create"
      "box wideCreate = Some \<lparr>box_x = 10, box_y = 120, box_width = 40, box_height = 30\<rparr>"
    by (simp_all add: wideCreate_def)
  have a: "handleMouseUp tinyCreate
             = (tinyCreate\<lparr>box := None, isDragging := False, dragType := None,
                           resizeHandle := None\<rparr>, [None])"
          "interactionState (fst (handleMouseUp tinyCreate)) = Idle"
    using handleMouseUp_create [OF t] by auto
  have b: "handleMouseUp wideCreate
             = (wideCreate\<lparr>isDragging := False, dragType := None, resizeHandle := None\<rparr>, [])"
          "interactionState (fst (handleMouseUp wideCreate)) = Selected"
    using handleMouseUp_create [OF w] by auto
  show ?thesis
    by (intro conjI) (fact m a b)+
qed

section \<open>Properties of the smart-crop handler\<close>

text \<open>The detection calls never raise an alert themselves, and they yield null when
  the answer has no text, when the trimmed text is empty, or when parsing throws; only
  the last case is logged.\<close>

lemma detectContentBounds_no_alert:
  "Alert m \<notin> set (snd (detectContentBounds env url))"
  by (simp add: detectContentBounds_def split: promise.split option.split)

lemma findTaxInvoiceAnchor_no_alert:
  "Alert m \<notin> set (snd (findTaxInvoiceAnchor env url))"
  by (simp add: findTaxInvoiceAnchor_def split: promise.split option.split)

lemma detectContentBounds_null:
  "boundsAnswer env url = Resolved None \<Longrightarrow>
     detectContentBounds env url = (Resolved None, [])"
  "boundsAnswer env url = Resolved (Some t) \<Longrightarrow> jsTrim env t = [] \<Longrightarrow>
     detectContentBounds env url = (Resolved None, [])"
  "boundsAnswer env url = Resolved (Some t) \<Longrightarrow> jsTrim env t \<noteq> [] \<Longrightarrow>
   parseBounds env (jsTrim env t) = None \<Longrightarrow>
     detectContentBounds env url
       = (Resolved None, [ConsoleError ''Failed to parse Gemini response''])"
  by (simp_all add: detectContentBounds_def)

lemma findTaxInvoiceAnchor_null:
  "anchorAnswer env url = Resolved None \<Longrightarrow>
     findTaxInvoiceAnchor env url = (Resolved None, [])"
  "anchorAnswer env url = Resolved (Some t) \<Longrightarrow> jsTrim env t = [] \<Longrightarrow>
     findTaxInvoiceAnchor env url = (Resolved None, [])"
  "anchorAnswer env url = Resolved (Some t) \<Longrightarrow> jsTrim env t \<noteq> [] \<Longrightarrow>
   parseAnchor env (jsTrim env t) = None \<Longrightarrow>
     findTaxInvoiceAnchor env url
       = (Resolved None, [ConsoleError ''Failed to detect invoice anchor''])"
  by (simp_all add: findTaxInvoiceAnchor_def)

text \<open>
  With a file loaded, no portal chosen and the current page present: when
  \<^verbatim>\<open>detectContentBounds\<close> yields null, \<^verbatim>\<open>handleSmartCrop\<close> leaves the state as it was,
  with the analyzing flag cleared, and adds nothing to what the detection call logged,
  so no alert is raised; when the call rejects, the handler only logs.
\<close>

lemma handleSmartCrop_null_bounds:
  assumes "app_file a = Some file" and "activePortal a = NoPortal"
      and "currentPageIdx a < length (app_pages a)"
      and "fst (detectContentBounds env (canvasUrl (app_pages a ! currentPageIdx a)))
             = Resolved None"
  shows "handleSmartCrop env a
           = (a\<lparr>isAnalyzing := False\<rparr>,
              snd (detectContentBounds env (canvasUrl (app_pages a ! currentPageIdx a))))"
    and "Alert m \<notin> set (snd (handleSmartCrop env a))"
proof -
  obtain r logged where
    d: "detectContentBounds env (canvasUrl (app_pages a ! currentPageIdx a)) = (r, logged)"
    by (cases "detectContentBounds env (canvasUrl (app_pages a ! currentPageIdx a))")
  have r: "r = Resolved None" using assms(4) d by simp
  show e: "handleSmartCrop env a
           = (a\<lparr>isAnalyzing := False\<rparr>,
              snd (detectContentBounds env (canvasUrl (app_pages a ! currentPageIdx a))))"
    using assms(1-3) d r by (simp add: handleSmartCrop_def Let_def)
  show "Alert m \<notin> set (snd (handleSmartCrop env a))"
    unfolding e by (simp add: detectContentBounds_no_alert)
qed

lemma handleSmartCrop_rejected:
  assumes "app_file a = Some file" and "activePortal a = NoPortal"
      and "currentPageIdx a < length (app_pages a)"
      and "boundsAnswer env (canvasUrl (app_pages a ! currentPageIdx a)) = Rejected"
  shows "handleSmartCrop env a
           = (a\<lparr>isAnalyzing := False\<rparr>, [ConsoleError ''Smart crop error:''])"
  using assms by (simp add: handleSmartCrop_def detectContentBounds_def Let_def)

text \<open>
  The sibling path. With a portal other than Meesho chosen and pages present: when
  \<^verbatim>\<open>findTaxInvoiceAnchor\<close> yields null, the state is as it was, with the analyzing
  flag cleared, and after what the detection call logged the handler logs the error
  and raises the alert.
\<close>

lemma portalSplit_null_anchor:
  assumes "portal \<noteq> Meesho"
      and "fst (findTaxInvoiceAnchor env (canvasUrl (renderedPages ! 0))) = Resolved None"
  shows "portalSplit env portal targetFile renderedPages
           = (None, snd (findTaxInvoiceAnchor env (canvasUrl (renderedPages ! 0))))"
proof -
  obtain r logged where
    d: "findTaxInvoiceAnchor env (canvasUrl (renderedPages ! 0)) = (r, logged)"
    by (cases "findTaxInvoiceAnchor env (canvasUrl (renderedPages ! 0))")
  have r: "r = Resolved None" using assms(2) d by simp
  show ?thesis using assms(1) d r by (simp add: portalSplit_def)
qed

lemma handleSmartCrop_null_anchor:
  assumes "app_file a = Some file" and "activePortal a \<noteq> NoPortal"
      and "activePortal a \<noteq> Meesho" and "app_pages a \<noteq> []"
      and "fst (findTaxInvoiceAnchor env (canvasUrl (app_pages a ! 0))) = Resolved None"
  shows "handleSmartCrop env a
           = (a\<lparr>isAnalyzing := False\<rparr>,
              snd (findTaxInvoiceAnchor env (canvasUrl (app_pages a ! 0)))
                @ [ConsoleError ''Portal split error:'',
                   Alert ''Auto processing failed. Please adjust manually.''])"
  using assms portalSplit_null_anchor [OF assms(3,5), of "file"]
  by (simp add: handleSmartCrop_def handlePortalAutoSplit_def Let_def)

text \<open>Once the analysis has started, the analyzing flag is cleared when the handler
  ends, whatever the collaborators answer.\<close>

lemma handlePortalAutoSplit_clears_flag:
  "renderedPages \<noteq> [] \<Longrightarrow>
   isAnalyzing (fst (handlePortalAutoSplit env a targetFile renderedPages)) = False"
  by (simp add: handlePortalAutoSplit_def Let_def split: option.split prod.split)

lemma handleSmartCrop_clears_flag:
  assumes "app_file a = Some file"
      and "if activePortal a = NoPortal then currentPageIdx a < length (app_pages a)
           else app_pages a \<noteq> []"
  shows "isAnalyzing (fst (handleSmartCrop env a)) = False"
proof (cases "activePortal a = NoPortal")
  case True
  then show ?thesis
    using assms
    by (simp add: handleSmartCrop_def Let_def split: promise.split option.split prod.split)
next
  case False
  then show ?thesis
    using assms by (simp add: handleSmartCrop_def handlePortalAutoSplit_clears_flag)
qed

text \<open>
  Claim C9, evaluated on the code. A file is loaded, no portal is chosen and the
  current page is present. When the detection service answers without text,
  \<^verbatim>\<open>detectContentBounds\<close> yields null and \<^verbatim>\<open>handleSmartCrop\<close> ends with the state as it
  was and with no effect at all; when it answers with text that is not JSON,
  \<^verbatim>\<open>detectContentBounds\<close> logs the parse failure, yields null, and the handler ends
  with that one console entry. In neither run is anything shown to the user, where the
  claim has a user-visible failure surfaced. On the same answer the portal path
  (Amazon chosen) does raise its alert.
\<close>

theorem smart_crop_null_example:
  "detectContentBounds noAnswer (canvasUrl renderedA4) = (Resolved None, [])
   \<and> handleSmartCrop noAnswer cropApp = (cropApp, [])
   \<and> detectContentBounds garbledAnswer (canvasUrl renderedA4)
       = (Resolved None, [ConsoleError ''Failed to parse Gemini response''])
   \<and> handleSmartCrop garbledAnswer cropApp
       = (cropApp, [ConsoleError ''Failed to parse Gemini response''])
   \<and> handleSmartCrop noAnswer amazonApp
       = (amazonApp, [ConsoleError ''Portal split error:'',
                      Alert ''Auto processing failed. Please adjust manually.''])"
  by (simp add: handleSmartCrop_def handlePortalAutoSplit_def portalSplit_def
      detectContentBounds_def findTaxInvoiceAnchor_def cropApp_def amazonApp_def
      noAnswer_def garbledAnswer_def renderedA4_def Let_def)

end
